theory Spec2Isabelle
  imports Main "HOL-Library.Word"
begin

section \<open>Values exchanged with database/sql\<close>

text \<open>
  The two database wrappers (package \<^verbatim>\<open>database\<close>) are thin layers over Go's
  \<^verbatim>\<open>database/sql\<close>. That library is not part of the repository, so it is a parameter of
  the model: a \<open>driver\<close> answers every library call, and the answer may depend on all
  the calls made before. The calls the wrappers issue are recorded, in order, in a trace.
\<close>

text \<open>
  Go error values. \<open>DriverError\<close> is an error produced outside the repository (by
  \<^verbatim>\<open>database/sql\<close>, a driver or the operating system), \<open>ErrorsNew msg\<close> is
  \<^verbatim>\<open>errors.New(msg)\<close>, and \<open>Errorf prefix e\<close> is \<^verbatim>\<open>fmt.Errorf(prefix + "%w", e)\<close>.
\<close>

datatype error =
    DriverError string
  | ErrorsNew string
  | Errorf string error

type_synonym int64 = "64 word"

text \<open>The identity of a \<^verbatim>\<open>*sql.DB\<close> object; a nil pointer is \<open>None :: conn option\<close>.\<close>

type_synonym conn = nat

text \<open>Statement arguments (\<^verbatim>\<open>args ...interface{}\<close>).\<close>

datatype val = VNil | VInt int | VStr string | VBool bool

text \<open>\<^verbatim>\<open>context.Context\<close>: the background context, or some other context.\<close>

datatype ctx = Background | Context nat

datatype TxOptions = TxOptions (Isolation: int) (ReadOnly: bool)

text \<open>
  \<^verbatim>\<open>sql.Result\<close> carries what its two methods report; \<^verbatim>\<open>*sql.Rows\<close>, \<^verbatim>\<open>*sql.Tx\<close> and
  \<^verbatim>\<open>*sql.Stmt\<close> are opaque to the wrappers. A non-nil \<^verbatim>\<open>*sql.Row\<close> carries its deferred
  error and its columns; a nil row pointer is \<open>None :: Row option\<close>.
\<close>

datatype Result = Result (LastInsertId: "error + int64") (RowsAffected: "error + int64")

datatype Rows = Rows "val list list"

datatype Row = Row (row_err: "error option") (row_vals: "val list")

datatype Tx = Tx nat

datatype Stmt = Stmt nat

text \<open>The library calls the wrappers make, named as in the source.\<close>

datatype call =
    Open string string
  | SetMaxOpenConns conn int
  | SetMaxIdleConns conn int
  | SetConnMaxLifetime conn int
  | Ping conn
  | PingContext conn ctx
  | Exec conn string "val list"
  | ExecContext conn ctx string "val list"
  | Query conn string "val list"
  | QueryContext conn ctx string "val list"
  | QueryRow conn string "val list"
  | QueryRowContext conn ctx string "val list"
  | Begin conn
  | BeginTx conn ctx "TxOptions option"
  | Prepare conn string
  | Close conn

type_synonym trace = "call list"

text \<open>
  The library as a parameter: one answer function for each kind of reply. Each takes the
  calls made so far and the call being made.
\<close>

record driver =
  on_open :: "trace \<Rightarrow> call \<Rightarrow> error + conn"
  on_err :: "trace \<Rightarrow> call \<Rightarrow> error option"
  on_exec :: "trace \<Rightarrow> call \<Rightarrow> error + Result"
  on_query :: "trace \<Rightarrow> call \<Rightarrow> error + Rows"
  on_row :: "trace \<Rightarrow> call \<Rightarrow> Row"
  on_begin :: "trace \<Rightarrow> call \<Rightarrow> error + Tx"
  on_prepare :: "trace \<Rightarrow> call \<Rightarrow> error + Stmt"

text \<open>
  A Go call either returns or panics. Calling a method of \<^verbatim>\<open>*sql.DB\<close> through a nil
  pointer panics (nil pointer dereference) before anything reaches the library.
\<close>

datatype 'a go = Panic | Ret 'a

definition method_call ::
  "conn option \<Rightarrow> (conn \<Rightarrow> call) \<Rightarrow> (trace \<Rightarrow> call \<Rightarrow> 'a) \<Rightarrow> trace \<Rightarrow> 'a go \<times> trace" where
  "method_call p mk reply w =
     (case p of
        None \<Rightarrow> (Panic, w)
      | Some c \<Rightarrow> (Ret (reply w (mk c)), w @ [mk c]))"

definition bind_go ::
  "'a go \<times> trace \<Rightarrow> ('a \<Rightarrow> trace \<Rightarrow> 'b go \<times> trace) \<Rightarrow> 'b go \<times> trace" where
  "bind_go m f = (case m of (Panic, w) \<Rightarrow> (Panic, w) | (Ret x, w) \<Rightarrow> f x w)"

definition sql_Open :: "driver \<Rightarrow> string \<Rightarrow> string \<Rightarrow> trace \<Rightarrow> (error + conn) \<times> trace" where
  "sql_Open drv driverName dsn w =
     (on_open drv w (Open driverName dsn), w @ [Open driverName dsn])"

definition DB_SetMaxOpenConns :: "driver \<Rightarrow> conn option \<Rightarrow> int \<Rightarrow> trace \<Rightarrow> unit go \<times> trace" where
  "DB_SetMaxOpenConns drv p n = method_call p (\<lambda>c. SetMaxOpenConns c n) (\<lambda>_ _. ())"

definition DB_SetMaxIdleConns :: "driver \<Rightarrow> conn option \<Rightarrow> int \<Rightarrow> trace \<Rightarrow> unit go \<times> trace" where
  "DB_SetMaxIdleConns drv p n = method_call p (\<lambda>c. SetMaxIdleConns c n) (\<lambda>_ _. ())"

definition DB_SetConnMaxLifetime :: "driver \<Rightarrow> conn option \<Rightarrow> int \<Rightarrow> trace \<Rightarrow> unit go \<times> trace" where
  "DB_SetConnMaxLifetime drv p d = method_call p (\<lambda>c. SetConnMaxLifetime c d) (\<lambda>_ _. ())"

definition DB_Ping :: "driver \<Rightarrow> conn option \<Rightarrow> trace \<Rightarrow> error option go \<times> trace" where
  "DB_Ping drv p = method_call p Ping (on_err drv)"

definition DB_PingContext :: "driver \<Rightarrow> conn option \<Rightarrow> ctx \<Rightarrow> trace \<Rightarrow> error option go \<times> trace" where
  "DB_PingContext drv p c = method_call p (\<lambda>k. PingContext k c) (on_err drv)"

definition DB_Close :: "driver \<Rightarrow> conn option \<Rightarrow> trace \<Rightarrow> error option go \<times> trace" where
  "DB_Close drv p = method_call p Close (on_err drv)"

definition DB_Exec ::
  "driver \<Rightarrow> conn option \<Rightarrow> string \<Rightarrow> val list \<Rightarrow> trace \<Rightarrow> (error + Result) go \<times> trace" where
  "DB_Exec drv p query args = method_call p (\<lambda>k. Exec k query args) (on_exec drv)"

definition DB_ExecContext ::
  "driver \<Rightarrow> conn option \<Rightarrow> ctx \<Rightarrow> string \<Rightarrow> val list \<Rightarrow> trace \<Rightarrow> (error + Result) go \<times> trace" where
  "DB_ExecContext drv p c query args = method_call p (\<lambda>k. ExecContext k c query args) (on_exec drv)"

definition DB_Query ::
  "driver \<Rightarrow> conn option \<Rightarrow> string \<Rightarrow> val list \<Rightarrow> trace \<Rightarrow> (error + Rows) go \<times> trace" where
  "DB_Query drv p query args = method_call p (\<lambda>k. Query k query args) (on_query drv)"

definition DB_QueryContext ::
  "driver \<Rightarrow> conn option \<Rightarrow> ctx \<Rightarrow> string \<Rightarrow> val list \<Rightarrow> trace \<Rightarrow> (error + Rows) go \<times> trace" where
  "DB_QueryContext drv p c query args = method_call p (\<lambda>k. QueryContext k c query args) (on_query drv)"

definition DB_QueryRow ::
  "driver \<Rightarrow> conn option \<Rightarrow> string \<Rightarrow> val list \<Rightarrow> trace \<Rightarrow> Row go \<times> trace" where
  "DB_QueryRow drv p query args = method_call p (\<lambda>k. QueryRow k query args) (on_row drv)"

definition DB_QueryRowContext ::
  "driver \<Rightarrow> conn option \<Rightarrow> ctx \<Rightarrow> string \<Rightarrow> val list \<Rightarrow> trace \<Rightarrow> Row go \<times> trace" where
  "DB_QueryRowContext drv p c query args = method_call p (\<lambda>k. QueryRowContext k c query args) (on_row drv)"

definition DB_Begin :: "driver \<Rightarrow> conn option \<Rightarrow> trace \<Rightarrow> (error + Tx) go \<times> trace" where
  "DB_Begin drv p = method_call p Begin (on_begin drv)"

definition DB_BeginTx ::
  "driver \<Rightarrow> conn option \<Rightarrow> ctx \<Rightarrow> TxOptions option \<Rightarrow> trace \<Rightarrow> (error + Tx) go \<times> trace" where
  "DB_BeginTx drv p c opts = method_call p (\<lambda>k. BeginTx k c opts) (on_begin drv)"

definition DB_Prepare :: "driver \<Rightarrow> conn option \<Rightarrow> string \<Rightarrow> trace \<Rightarrow> (error + Stmt) go \<times> trace" where
  "DB_Prepare drv p query = method_call p (\<lambda>k. Prepare k query) (on_prepare drv)"

text \<open>\<^verbatim>\<open>time.Hour\<close>, a \<^verbatim>\<open>time.Duration\<close> in nanoseconds.\<close>

definition time_Hour :: int where
  "time_Hour = 3600000000000"

section \<open>The MySQL wrapper (database/mysql.go)\<close>

record MySqlDB =
  db :: "conn option"

record Config =
  Username :: string
  Password :: string
  Host :: string
  Port :: int64
  Database :: string
  Charset :: string

text \<open>The verb \<^verbatim>\<open>%d\<close> of \<^verbatim>\<open>fmt.Sprintf\<close> on a signed integer: decimal, with a minus sign.\<close>

fun itoa_nat :: "nat \<Rightarrow> string" where
  "itoa_nat n =
     (if n < 10 then [''0123456789'' ! n]
      else itoa_nat (n div 10) @ [''0123456789'' ! (n mod 10)])"

definition itoa :: "int \<Rightarrow> string" where
  "itoa i = (if i < 0 then ''-'' @ itoa_nat (nat (- i)) else itoa_nat (nat i))"

definition mysql_dsn :: "Config \<Rightarrow> string \<Rightarrow> string" where
  "mysql_dsn cfg charset =
     Username cfg @ '':'' @ Password cfg @ ''@tcp('' @ Host cfg @ '':'' @ itoa (sint (Port cfg))
       @ '')/'' @ Database cfg @ ''?charset='' @ charset @ ''&parseTime=True&loc=Local''"

definition NewMySqlDB :: "driver \<Rightarrow> Config \<Rightarrow> trace \<Rightarrow> (error + MySqlDB) go \<times> trace" where
  "NewMySqlDB drv cfg w =
     (let charset = (if Charset cfg = '''' then ''utf8mb4'' else Charset cfg);
          dsn = mysql_dsn cfg charset
      in case sql_Open drv ''mysql'' dsn w of
           (Inl err, w1) \<Rightarrow> (Ret (Inl (Errorf ''error open database: '' err)), w1)
         | (Inr c, w1) \<Rightarrow>
             bind_go (DB_SetMaxOpenConns drv (Some c) 25 w1) (\<lambda>_ w2.
             bind_go (DB_SetMaxIdleConns drv (Some c) 10 w2) (\<lambda>_ w3.
             bind_go (DB_SetConnMaxLifetime drv (Some c) time_Hour w3) (\<lambda>_ w4.
             bind_go (DB_Ping drv (Some c) w4) (\<lambda>err w5.
               case err of
                 Some e \<Rightarrow> (Ret (Inl (Errorf ''error verify connect: '' e)), w5)
               | None \<Rightarrow> (Ret (Inr \<lparr>db = Some c\<rparr>), w5))))))"

text \<open>\<open>Close\<close> does not assign to \<^verbatim>\<open>m.db\<close>, so the handle is the same afterwards.\<close>

definition MySqlDB_Close :: "driver \<Rightarrow> MySqlDB \<Rightarrow> trace \<Rightarrow> error option go \<times> trace" where
  "MySqlDB_Close drv m w =
     (if db m \<noteq> None then DB_Close drv (db m) w else (Ret None, w))"

definition MySqlDB_Ping :: "driver \<Rightarrow> MySqlDB \<Rightarrow> ctx \<Rightarrow> trace \<Rightarrow> error option go \<times> trace" where
  "MySqlDB_Ping drv m c w = DB_PingContext drv (db m) c w"

text \<open>\<open>Exec\<close> returns the Go pair \<^verbatim>\<open>(int64, error)\<close>.\<close>

definition MySqlDB_Exec ::
  "driver \<Rightarrow> MySqlDB \<Rightarrow> string \<Rightarrow> val list \<Rightarrow> trace \<Rightarrow> (int64 \<times> error option) go \<times> trace" where
  "MySqlDB_Exec drv m query args w =
     bind_go (DB_Exec drv (db m) query args w) (\<lambda>r w1.
       case r of
         Inl err \<Rightarrow> (Ret (0, Some (Errorf ''error execute: '' err)), w1)
       | Inr result \<Rightarrow>
           (case RowsAffected result of
              Inl err \<Rightarrow> (Ret (0, Some (Errorf ''error fetch rows affected: '' err)), w1)
            | Inr rowsAffected \<Rightarrow> (Ret (rowsAffected, None), w1)))"

definition MySqlDB_Query ::
  "driver \<Rightarrow> MySqlDB \<Rightarrow> string \<Rightarrow> val list \<Rightarrow> trace \<Rightarrow> (error + Rows) go \<times> trace" where
  "MySqlDB_Query drv m query args w =
     bind_go (DB_Query drv (db m) query args w) (\<lambda>r w1.
       case r of
         Inl err \<Rightarrow> (Ret (Inl (Errorf ''error query: '' err)), w1)
       | Inr rows \<Rightarrow> (Ret (Inr rows), w1))"

definition MySqlDB_QueryRow ::
  "driver \<Rightarrow> MySqlDB \<Rightarrow> string \<Rightarrow> val list \<Rightarrow> trace \<Rightarrow> Row option go \<times> trace" where
  "MySqlDB_QueryRow drv m query args w =
     bind_go (DB_QueryRow drv (db m) query args w) (\<lambda>r w1. (Ret (Some r), w1))"

definition MySqlDB_BeginTransaction :: "driver \<Rightarrow> MySqlDB \<Rightarrow> trace \<Rightarrow> (error + Tx) go \<times> trace" where
  "MySqlDB_BeginTransaction drv m w =
     bind_go (DB_Begin drv (db m) w) (\<lambda>r w1.
       case r of
         Inl err \<Rightarrow> (Ret (Inl (Errorf ''error begin transaction: '' err)), w1)
       | Inr tx \<Rightarrow> (Ret (Inr tx), w1))"

definition MySqlDB_Prepare :: "driver \<Rightarrow> MySqlDB \<Rightarrow> string \<Rightarrow> trace \<Rightarrow> (error + Stmt) go \<times> trace" where
  "MySqlDB_Prepare drv m query w =
     bind_go (DB_Prepare drv (db m) query w) (\<lambda>r w1.
       case r of
         Inl err \<Rightarrow> (Ret (Inl (Errorf ''error prepare: '' err)), w1)
       | Inr stmt \<Rightarrow> (Ret (Inr stmt), w1))"

text \<open>
  The operations of the handle, for running a sequence of calls one after the other. A
  reply is what the call returned; a panic ends the sequence.
\<close>

datatype reply =
    RErr "error option"
  | RCount int64 "error option"
  | RResult "error + Result"
  | RRows "error + Rows"
  | RRow "Row option"
  | RTx "error + Tx"
  | RStmt "error + Stmt"

definition map_go :: "('a \<Rightarrow> 'b) \<Rightarrow> 'a go \<times> trace \<Rightarrow> 'b go \<times> trace" where
  "map_go f m = bind_go m (\<lambda>x w. (Ret (f x), w))"

datatype mysql_op =
    M_Close
  | M_Ping ctx
  | M_Exec string "val list"
  | M_Query string "val list"
  | M_QueryRow string "val list"
  | M_BeginTransaction
  | M_Prepare string

fun MySqlDB_call :: "driver \<Rightarrow> MySqlDB \<Rightarrow> mysql_op \<Rightarrow> trace \<Rightarrow> reply go \<times> trace" where
  "MySqlDB_call drv m M_Close w = map_go RErr (MySqlDB_Close drv m w)"
| "MySqlDB_call drv m (M_Ping c) w = map_go RErr (MySqlDB_Ping drv m c w)"
| "MySqlDB_call drv m (M_Exec q args) w = map_go (\<lambda>(n, e). RCount n e) (MySqlDB_Exec drv m q args w)"
| "MySqlDB_call drv m (M_Query q args) w = map_go RRows (MySqlDB_Query drv m q args w)"
| "MySqlDB_call drv m (M_QueryRow q args) w = map_go RRow (MySqlDB_QueryRow drv m q args w)"
| "MySqlDB_call drv m M_BeginTransaction w = map_go RTx (MySqlDB_BeginTransaction drv m w)"
| "MySqlDB_call drv m (M_Prepare q) w = map_go RStmt (MySqlDB_Prepare drv m q w)"

fun MySqlDB_calls :: "driver \<Rightarrow> MySqlDB \<Rightarrow> mysql_op list \<Rightarrow> trace \<Rightarrow> reply go list \<times> trace" where
  "MySqlDB_calls drv m [] w = ([], w)"
| "MySqlDB_calls drv m (op # ops) w =
     (case MySqlDB_call drv m op w of
        (Panic, w1) \<Rightarrow> ([Panic], w1)
      | (Ret r, w1) \<Rightarrow> (case MySqlDB_calls drv m ops w1 of (rs, w2) \<Rightarrow> (Ret r # rs, w2)))"

text \<open>The library call each operation of the MySQL handle makes on the pool \<open>c\<close>.\<close>

fun mysql_call_of :: "conn \<Rightarrow> mysql_op \<Rightarrow> call" where
  "mysql_call_of c M_Close = Close c"
| "mysql_call_of c (M_Ping x) = PingContext c x"
| "mysql_call_of c (M_Exec q args) = Exec c q args"
| "mysql_call_of c (M_Query q args) = Query c q args"
| "mysql_call_of c (M_QueryRow q args) = QueryRow c q args"
| "mysql_call_of c M_BeginTransaction = Begin c"
| "mysql_call_of c (M_Prepare q) = Prepare c q"

section \<open>The SQLite wrapper\<close>

text \<open>
  The handle's mutex is taken at the start of every method and released by a deferred
  unlock on every way out, so it is free between two calls. The methods below are the
  bodies that run under the lock; the lock itself, and goroutines that compete for it, come
  in the section on goroutines. The pool pointer is called \<open>sqlite_db\<close> here, since a
  field name belongs to one record.
\<close>

record SQLiteDB =
  sqlite_db :: "conn option"
  path :: string

definition NewSQLiteDB :: "driver \<Rightarrow> string \<Rightarrow> trace \<Rightarrow> (error + SQLiteDB) go \<times> trace" where
  "NewSQLiteDB drv dbPath w =
     (case sql_Open drv ''sqlite'' dbPath w of
        (Inl err, w1) \<Rightarrow> (Ret (Inl (Errorf ''failed to open database: '' err)), w1)
      | (Inr c, w1) \<Rightarrow>
          bind_go (DB_SetMaxOpenConns drv (Some c) 1 w1) (\<lambda>_ w2.
          bind_go (DB_SetMaxIdleConns drv (Some c) 1 w2) (\<lambda>_ w3.
          bind_go (DB_SetConnMaxLifetime drv (Some c) time_Hour w3) (\<lambda>_ w4.
          bind_go (DB_Ping drv (Some c) w4) (\<lambda>err w5.
            case err of
              Some e \<Rightarrow> (Ret (Inl (Errorf ''database ping failed: '' e)), w5)
            | None \<Rightarrow>
                bind_go (DB_Exec drv (Some c) ''PRAGMA foreign_keys = ON;'' [] w5) (\<lambda>r w6.
                  case r of
                    Inl e \<Rightarrow> (Ret (Inl (Errorf ''failed to enable foreign keys: '' e)), w6)
                  | Inr _ \<Rightarrow> (Ret (Inr \<lparr>sqlite_db = Some c, path = dbPath\<rparr>), w6)))))))"

text \<open>\<open>Close\<close> assigns nil to \<^verbatim>\<open>s.db\<close>, so it returns the handle as it is afterwards.\<close>

definition SQLiteDB_Close :: "driver \<Rightarrow> SQLiteDB \<Rightarrow> trace \<Rightarrow> (error option go \<times> SQLiteDB) \<times> trace" where
  "SQLiteDB_Close drv s w =
     (if sqlite_db s \<noteq> None then
        (case DB_Close drv (sqlite_db s) w of
           (Panic, w1) \<Rightarrow> ((Panic, s), w1)
         | (Ret err, w1) \<Rightarrow> ((Ret err, s\<lparr>sqlite_db := None\<rparr>), w1))
      else ((Ret None, s), w))"

definition SQLiteDB_ExecContext ::
  "driver \<Rightarrow> SQLiteDB \<Rightarrow> ctx \<Rightarrow> string \<Rightarrow> val list \<Rightarrow> trace \<Rightarrow> (error + Result) go \<times> trace" where
  "SQLiteDB_ExecContext drv s c query args w =
     (if sqlite_db s = None then (Ret (Inl (ErrorsNew ''database not connected'')), w)
      else DB_ExecContext drv (sqlite_db s) c query args w)"

definition SQLiteDB_Exec ::
  "driver \<Rightarrow> SQLiteDB \<Rightarrow> string \<Rightarrow> val list \<Rightarrow> trace \<Rightarrow> (error + Result) go \<times> trace" where
  "SQLiteDB_Exec drv s query args w = SQLiteDB_ExecContext drv s Background query args w"

definition SQLiteDB_QueryContext ::
  "driver \<Rightarrow> SQLiteDB \<Rightarrow> ctx \<Rightarrow> string \<Rightarrow> val list \<Rightarrow> trace \<Rightarrow> (error + Rows) go \<times> trace" where
  "SQLiteDB_QueryContext drv s c query args w =
     (if sqlite_db s = None then (Ret (Inl (ErrorsNew ''database not connected'')), w)
      else DB_QueryContext drv (sqlite_db s) c query args w)"

definition SQLiteDB_Query ::
  "driver \<Rightarrow> SQLiteDB \<Rightarrow> string \<Rightarrow> val list \<Rightarrow> trace \<Rightarrow> (error + Rows) go \<times> trace" where
  "SQLiteDB_Query drv s query args w = SQLiteDB_QueryContext drv s Background query args w"

definition SQLiteDB_QueryRowContext ::
  "driver \<Rightarrow> SQLiteDB \<Rightarrow> ctx \<Rightarrow> string \<Rightarrow> val list \<Rightarrow> trace \<Rightarrow> Row option go \<times> trace" where
  "SQLiteDB_QueryRowContext drv s c query args w =
     (if sqlite_db s = None then (Ret None, w)
      else map_go Some (DB_QueryRowContext drv (sqlite_db s) c query args w))"

definition SQLiteDB_QueryRow ::
  "driver \<Rightarrow> SQLiteDB \<Rightarrow> string \<Rightarrow> val list \<Rightarrow> trace \<Rightarrow> Row option go \<times> trace" where
  "SQLiteDB_QueryRow drv s query args w = SQLiteDB_QueryRowContext drv s Background query args w"

definition SQLiteDB_BeginTxContext ::
  "driver \<Rightarrow> SQLiteDB \<Rightarrow> ctx \<Rightarrow> TxOptions option \<Rightarrow> trace \<Rightarrow> (error + Tx) go \<times> trace" where
  "SQLiteDB_BeginTxContext drv s c opts w =
     (if sqlite_db s = None then (Ret (Inl (ErrorsNew ''database not connected'')), w)
      else DB_BeginTx drv (sqlite_db s) c opts w)"

definition SQLiteDB_BeginTx :: "driver \<Rightarrow> SQLiteDB \<Rightarrow> trace \<Rightarrow> (error + Tx) go \<times> trace" where
  "SQLiteDB_BeginTx drv s w = SQLiteDB_BeginTxContext drv s Background None w"

datatype sqlite_op =
    S_Close
  | S_Exec string "val list"
  | S_ExecContext ctx string "val list"
  | S_Query string "val list"
  | S_QueryContext ctx string "val list"
  | S_QueryRow string "val list"
  | S_QueryRowContext ctx string "val list"
  | S_BeginTx
  | S_BeginTxContext ctx "TxOptions option"

fun SQLiteDB_call ::
  "driver \<Rightarrow> SQLiteDB \<Rightarrow> sqlite_op \<Rightarrow> trace \<Rightarrow> (reply go \<times> SQLiteDB) \<times> trace" where
  "SQLiteDB_call drv s S_Close w =
     (case SQLiteDB_Close drv s w of
        ((Panic, s1), w1) \<Rightarrow> ((Panic, s1), w1)
      | ((Ret e, s1), w1) \<Rightarrow> ((Ret (RErr e), s1), w1))"
| "SQLiteDB_call drv s (S_Exec q args) w =
     (case map_go RResult (SQLiteDB_Exec drv s q args w) of (r, w1) \<Rightarrow> ((r, s), w1))"
| "SQLiteDB_call drv s (S_ExecContext c q args) w =
     (case map_go RResult (SQLiteDB_ExecContext drv s c q args w) of (r, w1) \<Rightarrow> ((r, s), w1))"
| "SQLiteDB_call drv s (S_Query q args) w =
     (case map_go RRows (SQLiteDB_Query drv s q args w) of (r, w1) \<Rightarrow> ((r, s), w1))"
| "SQLiteDB_call drv s (S_QueryContext c q args) w =
     (case map_go RRows (SQLiteDB_QueryContext drv s c q args w) of (r, w1) \<Rightarrow> ((r, s), w1))"
| "SQLiteDB_call drv s (S_QueryRow q args) w =
     (case map_go RRow (SQLiteDB_QueryRow drv s q args w) of (r, w1) \<Rightarrow> ((r, s), w1))"
| "SQLiteDB_call drv s (S_QueryRowContext c q args) w =
     (case map_go RRow (SQLiteDB_QueryRowContext drv s c q args w) of (r, w1) \<Rightarrow> ((r, s), w1))"
| "SQLiteDB_call drv s S_BeginTx w =
     (case map_go RTx (SQLiteDB_BeginTx drv s w) of (r, w1) \<Rightarrow> ((r, s), w1))"
| "SQLiteDB_call drv s (S_BeginTxContext c opts) w =
     (case map_go RTx (SQLiteDB_BeginTxContext drv s c opts w) of (r, w1) \<Rightarrow> ((r, s), w1))"

fun SQLiteDB_calls ::
  "driver \<Rightarrow> SQLiteDB \<Rightarrow> sqlite_op list \<Rightarrow> trace \<Rightarrow> (reply go list \<times> SQLiteDB) \<times> trace" where
  "SQLiteDB_calls drv s [] w = (([], s), w)"
| "SQLiteDB_calls drv s (op # ops) w =
     (case SQLiteDB_call drv s op w of
        ((Panic, s1), w1) \<Rightarrow> (([Panic], s1), w1)
      | ((Ret r, s1), w1) \<Rightarrow>
          (case SQLiteDB_calls drv s1 ops w1 of ((rs, s2), w2) \<Rightarrow> ((Ret r # rs, s2), w2)))"

text \<open>
  What each operation of the SQLite handle returns when the pool pointer is nil: the error
  \<^verbatim>\<open>database not connected\<close> where the method returns an error, a nil row where it returns
  only a row, and no error for \<open>Close\<close>.
\<close>

definition ErrNotConnected :: error where
  "ErrNotConnected = ErrorsNew ''database not connected''"

fun closed_reply :: "sqlite_op \<Rightarrow> reply" where
  "closed_reply S_Close = RErr None"
| "closed_reply (S_Exec q args) = RResult (Inl ErrNotConnected)"
| "closed_reply (S_ExecContext c q args) = RResult (Inl ErrNotConnected)"
| "closed_reply (S_Query q args) = RRows (Inl ErrNotConnected)"
| "closed_reply (S_QueryContext c q args) = RRows (Inl ErrNotConnected)"
| "closed_reply (S_QueryRow q args) = RRow None"
| "closed_reply (S_QueryRowContext c q args) = RRow None"
| "closed_reply S_BeginTx = RTx (Inl ErrNotConnected)"
| "closed_reply (S_BeginTxContext c opts) = RTx (Inl ErrNotConnected)"

text \<open>The error a reply reports to the caller, if any; a row reports its deferred error.\<close>

fun reply_error :: "reply \<Rightarrow> error option" where
  "reply_error (RErr e) = e"
| "reply_error (RCount n e) = e"
| "reply_error (RResult r) = (case r of Inl e \<Rightarrow> Some e | Inr _ \<Rightarrow> None)"
| "reply_error (RRows r) = (case r of Inl e \<Rightarrow> Some e | Inr _ \<Rightarrow> None)"
| "reply_error (RRow r) = (case r of None \<Rightarrow> None | Some x \<Rightarrow> row_err x)"
| "reply_error (RTx r) = (case r of Inl e \<Rightarrow> Some e | Inr _ \<Rightarrow> None)"
| "reply_error (RStmt r) = (case r of Inl e \<Rightarrow> Some e | Inr _ \<Rightarrow> None)"

section \<open>Goroutines sharing one SQLite handle\<close>

text \<open>
  Every locking method of the SQLite handle begins with \<^verbatim>\<open>s.mu.Lock()\<close> and
  \<^verbatim>\<open>defer s.mu.Unlock()\<close>, then checks the pool pointer, and then makes its library
  call; the methods without a context call the ones with a context and take the lock
  there. A goroutine that works through a program of operations is therefore at one of four
  places: \<open>Idle\<close>, between two methods, where its next action is \<open>Lock\<close>; \<open>Holding\<close>,
  where it has locked the mutex and is at the nil check; \<open>Calling\<close>, where the check found a
  pool and the library call is in progress; and \<open>Unlocking\<close>, where the method has returned,
  early or after the call, and the deferred \<open>Unlock\<close> is due.
\<close>

datatype phase = Idle | Holding sqlite_op | Calling sqlite_op | Unlocking

record goroutine =
  g_phase :: phase
  g_program :: "sqlite_op list"
  g_replies :: "reply go list"

text \<open>
  What the goroutines share: the mutex (with the number of the goroutine that locked it,
  when it is locked), the handle, and the trace of library calls.
\<close>

record shared =
  mu :: "nat option"
  handle :: SQLiteDB
  lib_calls :: trace
  goroutines :: "goroutine list"

text \<open>
  The method body of goroutine \<open>t\<close> comes to its end: the handle and the trace are what
  the operation leaves, the reply is noted, and the deferred \<open>Unlock\<close> remains. A panic
  ends the goroutine's program; the deferred \<open>Unlock\<close> still runs.
\<close>

definition method_returns :: "driver \<Rightarrow> nat \<Rightarrow> sqlite_op \<Rightarrow> shared \<Rightarrow> shared" where
  "method_returns drv t op st =
     (case SQLiteDB_call drv (handle st) op (lib_calls st) of
        ((r, s1), w1) \<Rightarrow>
          st\<lparr> handle := s1, lib_calls := w1,
              goroutines := (goroutines st)
                [t := (goroutines st ! t)
                   \<lparr> g_phase := Unlocking,
                     g_program := (if r = Panic then [] else g_program (goroutines st ! t)),
                     g_replies := g_replies (goroutines st ! t) @ [r] \<rparr>] \<rparr>)"

text \<open>
  One action of goroutine \<open>t\<close>. \<open>Lock\<close> on a locked mutex blocks: nothing changes until
  the goroutine is scheduled again with the mutex free.
\<close>

definition step :: "driver \<Rightarrow> nat \<Rightarrow> shared \<Rightarrow> shared" where
  "step drv t st =
     (if length (goroutines st) \<le> t then st
      else case g_phase (goroutines st ! t) of
        Idle \<Rightarrow>
          (case g_program (goroutines st ! t) of
             [] \<Rightarrow> st
           | op # rest \<Rightarrow>
               (case mu st of
                  Some u \<Rightarrow> st
                | None \<Rightarrow>
                    st\<lparr> mu := Some t,
                        goroutines := (goroutines st)
                          [t := (goroutines st ! t)\<lparr> g_phase := Holding op, g_program := rest \<rparr>] \<rparr>))
      | Holding op \<Rightarrow>
          (if sqlite_db (handle st) = None then method_returns drv t op st
           else st\<lparr> goroutines := (goroutines st)
                        [t := (goroutines st ! t)\<lparr> g_phase := Calling op \<rparr>] \<rparr>)
      | Calling op \<Rightarrow> method_returns drv t op st
      | Unlocking \<Rightarrow>
          st\<lparr> mu := None,
              goroutines := (goroutines st)[t := (goroutines st ! t)\<lparr> g_phase := Idle \<rparr>] \<rparr>)"

text \<open>A schedule names the goroutine that acts next, action after action.\<close>

fun run :: "driver \<Rightarrow> nat list \<Rightarrow> shared \<Rightarrow> shared" where
  "run drv [] st = st"
| "run drv (t # ts) st = run drv ts (step drv t st)"

text \<open>The start: the mutex free, and every goroutine before the first method of its program.\<close>

definition start :: "SQLiteDB \<Rightarrow> trace \<Rightarrow> sqlite_op list list \<Rightarrow> shared" where
  "start s w progs =
     \<lparr> mu = None, handle = s, lib_calls = w,
       goroutines = map (\<lambda>p. \<lparr> g_phase = Idle, g_program = p, g_replies = [] \<rparr>) progs \<rparr>"

text \<open>
  The mutex is locked by goroutine \<open>t\<close> exactly when \<open>t\<close> is inside a method, and only a
  goroutine that exists locks it.
\<close>

definition lock_inv :: "shared \<Rightarrow> bool" where
  "lock_inv st =
     ((\<forall>t. t < length (goroutines st) \<longrightarrow>
          (g_phase (goroutines st ! t) \<noteq> Idle) = (mu st = Some t)) \<and>
      (\<forall>t. mu st = Some t \<longrightarrow> t < length (goroutines st)))"

section \<open>The logging facade (logger/zap.go)\<close>

type_synonym LogLevel = string

definition DebugLevel :: LogLevel where "DebugLevel = ''debug''"
definition InfoLevel :: LogLevel where "InfoLevel = ''info''"
definition WarnLevel :: LogLevel where "WarnLevel = ''warn''"
definition ErrorLevel :: LogLevel where "ErrorLevel = ''error''"
definition PanicLevel :: LogLevel where "PanicLevel = ''panic''"
definition FatalLevel :: LogLevel where "FatalLevel = ''fatal''"

record LogConfig =
  Level :: LogLevel
  Filename :: string
  MaxSize :: int64
  MaxBackups :: int64
  MaxAge :: int64
  Compress :: bool
  Console :: bool

text \<open>
  The names of the zap library the facade uses: the severities of \<^verbatim>\<open>zapcore\<close>, the two
  encoders, the two writers (the rotating file writer with its five settings, and standard
  output), a core made of the three, and a logger made of its cores and options.
\<close>

datatype zapcore_Level =
    zapcore_DebugLevel
  | zapcore_InfoLevel
  | zapcore_WarnLevel
  | zapcore_ErrorLevel
  | zapcore_DPanicLevel
  | zapcore_PanicLevel
  | zapcore_FatalLevel
  | zapcore_InvalidLevel

datatype Encoder = JSONEncoder | ConsoleEncoder

datatype WriteSyncer = lumberjack_Logger string int64 int64 int64 bool | os_Stdout

datatype Core = NewCore (core_encoder: Encoder) (core_writer: WriteSyncer) (core_level: zapcore_Level)

datatype Option = AddCaller | AddCallerSkip int

datatype SugaredLogger = Sugar (logger_cores: "Core list") (logger_options: "Option list")

text \<open>
  The operating system as a parameter: what \<^verbatim>\<open>os.MkdirAll\<close> answers for a directory and a
  permission, and what \<^verbatim>\<open>filepath.Dir\<close> computes.
\<close>

record os =
  MkdirAll :: "string \<Rightarrow> nat \<Rightarrow> error option"
  filepath_Dir :: "string \<Rightarrow> string"

definition getJSONEncoder :: Encoder where
  "getJSONEncoder = JSONEncoder"

definition getConsoleEncoder :: Encoder where
  "getConsoleEncoder = ConsoleEncoder"

definition mapLogLevel :: "LogLevel \<Rightarrow> zapcore_Level" where
  "mapLogLevel level =
     (if level = DebugLevel then zapcore_DebugLevel
      else if level = InfoLevel then zapcore_InfoLevel
      else if level = WarnLevel then zapcore_WarnLevel
      else if level = ErrorLevel then zapcore_ErrorLevel
      else if level = PanicLevel then zapcore_PanicLevel
      else if level = FatalLevel then zapcore_FatalLevel
      else zapcore_InfoLevel)"

text \<open>
  \<open>Init\<close> takes the process-wide \<^verbatim>\<open>globalLogger\<close> (nil is \<open>None\<close>) and returns its error
  and the variable afterwards. The permission \<^verbatim>\<open>0755\<close> is 493. The deferred
  \<^verbatim>\<open>logger.Sync()\<close> flushes the writers; its result is dropped and it assigns nothing.
\<close>

definition Init :: "os \<Rightarrow> LogConfig \<Rightarrow> SugaredLogger option \<Rightarrow> error option \<times> SugaredLogger option" where
  "Init sys cfg globalLogger =
     (let logLevel0 = mapLogLevel (Level cfg);
          logLevel = (if logLevel0 = zapcore_InvalidLevel then zapcore_InfoLevel else logLevel0)
      in case (if Filename cfg \<noteq> '''' then
                 (case MkdirAll sys (filepath_Dir sys (Filename cfg)) 493 of
                    Some err \<Rightarrow> Inl err
                  | None \<Rightarrow>
                      Inr [NewCore getJSONEncoder
                             (lumberjack_Logger (Filename cfg) (MaxSize cfg) (MaxBackups cfg)
                                (MaxAge cfg) (Compress cfg))
                             logLevel])
               else Inr [])
         of Inl err \<Rightarrow> (Some err, globalLogger)
          | Inr cores \<Rightarrow>
              (let cores1 = (if Console cfg
                             then cores @ [NewCore getConsoleEncoder os_Stdout logLevel]
                             else cores)
               in (None, Some (Sugar cores1 [AddCaller, AddCallerSkip 1]))))"

text \<open>\<open>Logger\<close> returns the instance it hands out and \<^verbatim>\<open>globalLogger\<close> afterwards.\<close>

definition default_LogConfig :: LogConfig where
  "default_LogConfig =
     \<lparr> Level = InfoLevel, Filename = ''./logs/app.log'', MaxSize = 100, MaxBackups = 0,
       MaxAge = 7, Compress = False, Console = True \<rparr>"

definition Logger :: "os \<Rightarrow> SugaredLogger option \<Rightarrow> SugaredLogger option \<times> SugaredLogger option" where
  "Logger sys globalLogger =
     (if globalLogger = None then
        (case Init sys default_LogConfig globalLogger of
           (Some err, g) \<Rightarrow> (None, g)
         | (None, g) \<Rightarrow> (g, g))
      else (globalLogger, globalLogger))"

text \<open>
  Modelled from the spec: the minimum-severity filter of a sink, which is the zap library's
  and not in this repository. The spec has each sink "filtered by a minimum severity level"
  over the levels debug, info, warn, error, panic and fatal in this order; \<open>severity\<close>
  numbers them as \<^verbatim>\<open>zapcore\<close> does, and a record passes a sink when its level is at least
  the sink's.
\<close>

fun severity :: "zapcore_Level \<Rightarrow> int" where
  "severity zapcore_DebugLevel = -1"
| "severity zapcore_InfoLevel = 0"
| "severity zapcore_WarnLevel = 1"
| "severity zapcore_ErrorLevel = 2"
| "severity zapcore_DPanicLevel = 3"
| "severity zapcore_PanicLevel = 4"
| "severity zapcore_FatalLevel = 5"
| "severity zapcore_InvalidLevel = 6"

definition passes :: "Core \<Rightarrow> zapcore_Level \<Rightarrow> bool" where
  "passes core lvl = (severity (core_level core) \<le> severity lvl)"

section \<open>Drivers used to run the wrappers on concrete inputs\<close>

text \<open>
  A pool that behaves as \<^verbatim>\<open>database/sql\<close> does once it is closed: \<open>Close\<close> itself always
  reports no error, and every other call on a closed pool reports
  \<^verbatim>\<open>sql: database is closed\<close>. \<open>Open\<close> numbers the pools by the length of the trace.
\<close>

definition errDBClosed :: error where
  "errDBClosed = DriverError ''sql: database is closed''"

fun call_conn :: "call \<Rightarrow> conn option" where
  "call_conn (Open n d) = None"
| "call_conn (SetMaxOpenConns c n) = Some c"
| "call_conn (SetMaxIdleConns c n) = Some c"
| "call_conn (SetConnMaxLifetime c n) = Some c"
| "call_conn (Ping c) = Some c"
| "call_conn (PingContext c x) = Some c"
| "call_conn (Exec c q a) = Some c"
| "call_conn (ExecContext c x q a) = Some c"
| "call_conn (Query c q a) = Some c"
| "call_conn (QueryContext c x q a) = Some c"
| "call_conn (QueryRow c q a) = Some c"
| "call_conn (QueryRowContext c x q a) = Some c"
| "call_conn (Begin c) = Some c"
| "call_conn (BeginTx c x opts) = Some c"
| "call_conn (Prepare c q) = Some c"
| "call_conn (Close c) = Some c"

definition closed_in :: "trace \<Rightarrow> call \<Rightarrow> bool" where
  "closed_in w k = (case call_conn k of None \<Rightarrow> False | Some c \<Rightarrow> Close c \<in> set w)"

definition good_driver :: driver where
  "good_driver =
     \<lparr> on_open = (\<lambda>w k. Inr (length w)),
       on_err = (\<lambda>w k. case k of Close c \<Rightarrow> None
                              | _ \<Rightarrow> if closed_in w k then Some errDBClosed else None),
       on_exec = (\<lambda>w k. if closed_in w k then Inl errDBClosed else Inr (Result (Inr 7) (Inr 3))),
       on_query = (\<lambda>w k. if closed_in w k then Inl errDBClosed else Inr (Rows [[VInt 1]])),
       on_row = (\<lambda>w k. if closed_in w k then Row (Some errDBClosed) [] else Row None [VInt 1]),
       on_begin = (\<lambda>w k. if closed_in w k then Inl errDBClosed else Inr (Tx 0)),
       on_prepare = (\<lambda>w k. if closed_in w k then Inl errDBClosed else Inr (Stmt 0)) \<rparr>"

text \<open>The same pool behind an unreachable host or path: every liveness probe fails.\<close>

definition unreachable_driver :: driver where
  "unreachable_driver =
     good_driver \<lparr> on_err := (\<lambda>w k. case k of Close c \<Rightarrow> None
                                    | _ \<Rightarrow> Some (DriverError ''dial tcp: connection refused'')) \<rparr>"

text \<open>A driver whose statements run but whose result cannot report the affected rows.\<close>

definition no_count_driver :: driver where
  "no_count_driver =
     good_driver \<lparr> on_exec := (\<lambda>w k. Inr (Result (Inr 0) (Inl (DriverError ''no RowsAffected available'')))) \<rparr>"

definition example_Config :: Config where
  "example_Config =
     \<lparr> Username = ''root'', Password = ''secret'', Host = ''127.0.0.1'', Port = 3306,
       Database = ''epdg'', Charset = '''' \<rparr>"

text \<open>A pool whose setup statements fail (a read-only or corrupt data file).\<close>

definition no_pragma_driver :: driver where
  "no_pragma_driver =
     good_driver \<lparr> on_exec := (\<lambda>w k. Inl (DriverError ''attempt to write a readonly database'')) \<rparr>"

definition example_SQLiteDB :: SQLiteDB where
  "example_SQLiteDB = \<lparr> sqlite_db = Some 0, path = ''epdg.db'' \<rparr>"

definition example_MySqlDB :: MySqlDB where
  "example_MySqlDB = \<lparr> db = Some 0 \<rparr>"

text \<open>Two operating systems: one creates every directory, one refuses.\<close>

definition good_os :: os where
  "good_os = \<lparr> MkdirAll = (\<lambda>d p. None), filepath_Dir = (\<lambda>f. ''logs'') \<rparr>"

definition readonly_os :: os where
  "readonly_os =
     \<lparr> MkdirAll = (\<lambda>d p. Some (DriverError ''mkdir logs: read-only file system'')),
       filepath_Dir = (\<lambda>f. ''logs'') \<rparr>"

definition example_LogConfig :: LogConfig where
  "example_LogConfig =
     \<lparr> Level = ''verbose'', Filename = ''logs/app.log'', MaxSize = 100, MaxBackups = 3,
       MaxAge = 7, Compress = False, Console = True \<rparr>"

section \<open>Properties of the MySQL wrapper\<close>

lemma method_call_Some [simp]:
  "method_call (Some c) mk reply w = (Ret (reply w (mk c)), w @ [mk c])"
  by (simp add: method_call_def)

lemma method_call_None [simp]:
  "method_call None mk reply w = (Panic, w)"
  by (simp add: method_call_def)

lemma bind_go_Ret [simp]: "bind_go (Ret x, w) f = f x w"
  by (simp add: bind_go_def)

lemma bind_go_Panic [simp]: "bind_go (Panic, w) f = (Panic, w)"
  by (simp add: bind_go_def)

lemma map_go_Ret [simp]: "map_go f (Ret x, w) = (Ret (f x), w)"
  by (simp add: map_go_def)

lemma map_go_Panic [simp]: "map_go f (Panic, w) = (Panic, w)"
  by (simp add: map_go_def)

lemma MySqlDB_Exec_open:
  "db m = Some c \<Longrightarrow>
   MySqlDB_Exec drv m query args w =
     (Ret (case on_exec drv w (Exec c query args) of
             Inl err \<Rightarrow> (0, Some (Errorf ''error execute: '' err))
           | Inr result \<Rightarrow>
               (case RowsAffected result of
                  Inl err \<Rightarrow> (0, Some (Errorf ''error fetch rows affected: '' err))
                | Inr n \<Rightarrow> (n, None))),
      w @ [Exec c query args])"
  by (simp add: MySqlDB_Exec_def DB_Exec_def split: sum.splits)

text \<open>
  Claim C6. On a handle whose pool pointer is set, \<open>MySqlDB.Exec\<close> makes exactly one
  \<open>Exec\<close> call on the pool, for every statement and argument list. When the call succeeds and
  the result reports its affected rows, \<open>Exec\<close> returns that count and no error. When the
  call fails it returns the count 0 and the error wrapped with the context
  \<^verbatim>\<open>error execute: \<close>; when reading the affected rows fails it returns the count 0 and the
  error wrapped with the context \<^verbatim>\<open>error fetch rows affected: \<close>. The two contexts differ,
  so the wrapped error tells which phase failed.
\<close>

theorem C6_MySqlDB_Exec_rows_affected:
  assumes "db m = Some c"
  shows "snd (MySqlDB_Exec drv m query args w) = w @ [Exec c query args] \<and>
    (\<forall>result n. on_exec drv w (Exec c query args) = Inr result \<longrightarrow> RowsAffected result = Inr n \<longrightarrow>
       fst (MySqlDB_Exec drv m query args w) = Ret (n, None)) \<and>
    (\<forall>err. on_exec drv w (Exec c query args) = Inl err \<longrightarrow>
       fst (MySqlDB_Exec drv m query args w) = Ret (0, Some (Errorf ''error execute: '' err))) \<and>
    (\<forall>result err. on_exec drv w (Exec c query args) = Inr result \<longrightarrow> RowsAffected result = Inl err \<longrightarrow>
       fst (MySqlDB_Exec drv m query args w) =
         Ret (0, Some (Errorf ''error fetch rows affected: '' err))) \<and>
    (\<forall>e1 e2. Errorf ''error execute: '' e1 \<noteq> Errorf ''error fetch rows affected: '' e2)"
  using assms by (simp add: MySqlDB_Exec_open)

theorem C6_MySqlDB_Exec_witness:
  "db example_MySqlDB = Some 0 \<and>
   MySqlDB_Exec good_driver example_MySqlDB ''DELETE FROM sessions'' [] [] =
     (Ret (3, None), [Exec 0 ''DELETE FROM sessions'' []]) \<and>
   MySqlDB_Exec good_driver example_MySqlDB ''DELETE FROM sessions'' [] [Close 0] =
     (Ret (0, Some (Errorf ''error execute: '' errDBClosed)),
      [Close 0, Exec 0 ''DELETE FROM sessions'' []]) \<and>
   MySqlDB_Exec no_count_driver example_MySqlDB ''DELETE FROM sessions'' [] [] =
     (Ret (0, Some (Errorf ''error fetch rows affected: '' (DriverError ''no RowsAffected available''))),
      [Exec 0 ''DELETE FROM sessions'' []])"
proof -
  have h: "db example_MySqlDB = Some 0"
    by (simp add: example_MySqlDB_def)
  have a: "on_exec good_driver [] (Exec 0 ''DELETE FROM sessions'' []) = Inr (Result (Inr 7) (Inr 3))"
    by (simp add: good_driver_def closed_in_def)
  have b: "on_exec good_driver [Close 0] (Exec 0 ''DELETE FROM sessions'' []) = Inl errDBClosed"
    by (simp add: good_driver_def closed_in_def)
  have c: "on_exec no_count_driver [] (Exec 0 ''DELETE FROM sessions'' []) =
      Inr (Result (Inr 0) (Inl (DriverError ''no RowsAffected available'')))"
    by (simp add: no_count_driver_def)
  show ?thesis
    using h a b c
      C6_MySqlDB_Exec_rows_affected [OF h, of good_driver "''DELETE FROM sessions''" "[]" "[]"]
      C6_MySqlDB_Exec_rows_affected [OF h, of good_driver "''DELETE FROM sessions''" "[]" "[Close 0]"]
      C6_MySqlDB_Exec_rows_affected [OF h, of no_count_driver "''DELETE FROM sessions''" "[]" "[]"]
    by (simp add: prod_eq_iff)
qed

section \<open>Properties of the two constructors\<close>

lemma NewMySqlDB_run:
  "NewMySqlDB drv cfg w =
     (case on_open drv w (Open ''mysql'' (mysql_dsn cfg (if Charset cfg = '''' then ''utf8mb4'' else Charset cfg))) of
        Inl err \<Rightarrow>
          (Ret (Inl (Errorf ''error open database: '' err)),
           w @ [Open ''mysql'' (mysql_dsn cfg (if Charset cfg = '''' then ''utf8mb4'' else Charset cfg))])
      | Inr c \<Rightarrow>
          (case on_err drv
                  (w @ [Open ''mysql'' (mysql_dsn cfg (if Charset cfg = '''' then ''utf8mb4'' else Charset cfg)),
                        SetMaxOpenConns c 25, SetMaxIdleConns c 10, SetConnMaxLifetime c time_Hour])
                  (Ping c) of
             Some e \<Rightarrow> Ret (Inl (Errorf ''error verify connect: '' e))
           | None \<Rightarrow> Ret (Inr \<lparr>db = Some c\<rparr>),
           w @ [Open ''mysql'' (mysql_dsn cfg (if Charset cfg = '''' then ''utf8mb4'' else Charset cfg)),
                SetMaxOpenConns c 25, SetMaxIdleConns c 10, SetConnMaxLifetime c time_Hour, Ping c]))"
  by (simp add: NewMySqlDB_def sql_Open_def DB_SetMaxOpenConns_def DB_SetMaxIdleConns_def
      DB_SetConnMaxLifetime_def DB_Ping_def split: sum.splits option.splits)

lemma NewSQLiteDB_run:
  "NewSQLiteDB drv dbPath w =
     (case on_open drv w (Open ''sqlite'' dbPath) of
        Inl err \<Rightarrow> (Ret (Inl (Errorf ''failed to open database: '' err)), w @ [Open ''sqlite'' dbPath])
      | Inr c \<Rightarrow>
          (case on_err drv
                  (w @ [Open ''sqlite'' dbPath, SetMaxOpenConns c 1, SetMaxIdleConns c 1,
                        SetConnMaxLifetime c time_Hour])
                  (Ping c) of
             Some e \<Rightarrow>
               (Ret (Inl (Errorf ''database ping failed: '' e)),
                w @ [Open ''sqlite'' dbPath, SetMaxOpenConns c 1, SetMaxIdleConns c 1,
                     SetConnMaxLifetime c time_Hour, Ping c])
           | None \<Rightarrow>
               (case on_exec drv
                       (w @ [Open ''sqlite'' dbPath, SetMaxOpenConns c 1, SetMaxIdleConns c 1,
                             SetConnMaxLifetime c time_Hour, Ping c])
                       (Exec c ''PRAGMA foreign_keys = ON;'' []) of
                  Inl e \<Rightarrow> Ret (Inl (Errorf ''failed to enable foreign keys: '' e))
                | Inr r \<Rightarrow> Ret (Inr \<lparr>sqlite_db = Some c, path = dbPath\<rparr>),
                w @ [Open ''sqlite'' dbPath, SetMaxOpenConns c 1, SetMaxIdleConns c 1,
                     SetConnMaxLifetime c time_Hour, Ping c, Exec c ''PRAGMA foreign_keys = ON;'' []])))"
  by (simp add: NewSQLiteDB_def sql_Open_def DB_SetMaxOpenConns_def DB_SetMaxIdleConns_def
      DB_SetConnMaxLifetime_def DB_Ping_def DB_Exec_def split: sum.splits option.splits)

lemma good_driver_open [simp]: "on_open good_driver w k = Inr (length w)"
  by (simp add: good_driver_def)

lemma unreachable_driver_open [simp]: "on_open unreachable_driver w k = Inr (length w)"
  by (simp add: unreachable_driver_def good_driver_def)

lemma no_pragma_driver_open [simp]: "on_open no_pragma_driver w k = Inr (length w)"
  by (simp add: no_pragma_driver_def good_driver_def)

lemma good_driver_ping [simp]:
  "on_err good_driver w (Ping c) = (if Close c \<in> set w then Some errDBClosed else None)"
  by (simp add: good_driver_def closed_in_def)

lemma good_driver_close [simp]: "on_err good_driver w (Close c) = None"
  by (simp add: good_driver_def)

lemma good_driver_exec [simp]:
  "on_exec good_driver w (Exec c q a) =
     (if Close c \<in> set w then Inl errDBClosed else Inr (Result (Inr 7) (Inr 3)))"
  by (simp add: good_driver_def closed_in_def)

lemma unreachable_driver_ping [simp]:
  "on_err unreachable_driver w (Ping c) = Some (DriverError ''dial tcp: connection refused'')"
  by (simp add: unreachable_driver_def)

lemma no_pragma_driver_ping [simp]:
  "on_err no_pragma_driver w (Ping c) = (if Close c \<in> set w then Some errDBClosed else None)"
  by (simp add: no_pragma_driver_def good_driver_def closed_in_def)

lemma no_pragma_driver_exec [simp]:
  "on_exec no_pragma_driver w k = Inl (DriverError ''attempt to write a readonly database'')"
  by (simp add: no_pragma_driver_def)

lemma example_dsn:
  "mysql_dsn example_Config ''utf8mb4'' =
     ''root:secret@tcp(127.0.0.1:3306)/epdg?charset=utf8mb4&parseTime=True&loc=Local''"
  by (simp add: mysql_dsn_def example_Config_def itoa_def)

lemma NewMySqlDB_good:
  "NewMySqlDB good_driver example_Config [] =
     (Ret (Inr \<lparr>db = Some 0\<rparr>),
      [Open ''mysql'' ''root:secret@tcp(127.0.0.1:3306)/epdg?charset=utf8mb4&parseTime=True&loc=Local'',
       SetMaxOpenConns 0 25, SetMaxIdleConns 0 10, SetConnMaxLifetime 0 3600000000000, Ping 0])"
  by (simp add: NewMySqlDB_run example_dsn time_Hour_def) (simp add: example_Config_def)

lemma NewMySqlDB_unreachable:
  "NewMySqlDB unreachable_driver example_Config [] =
     (Ret (Inl (Errorf ''error verify connect: '' (DriverError ''dial tcp: connection refused''))),
      [Open ''mysql'' ''root:secret@tcp(127.0.0.1:3306)/epdg?charset=utf8mb4&parseTime=True&loc=Local'',
       SetMaxOpenConns 0 25, SetMaxIdleConns 0 10, SetConnMaxLifetime 0 3600000000000, Ping 0])"
  by (simp add: NewMySqlDB_run example_dsn time_Hour_def) (simp add: example_Config_def)

lemma NewSQLiteDB_good:
  "NewSQLiteDB good_driver ''epdg.db'' [] =
     (Ret (Inr \<lparr>sqlite_db = Some 0, path = ''epdg.db''\<rparr>),
      [Open ''sqlite'' ''epdg.db'', SetMaxOpenConns 0 1, SetMaxIdleConns 0 1,
       SetConnMaxLifetime 0 3600000000000, Ping 0, Exec 0 ''PRAGMA foreign_keys = ON;'' []])"
  by (simp add: NewSQLiteDB_run time_Hour_def)

lemma NewSQLiteDB_unreachable:
  "NewSQLiteDB unreachable_driver ''/nowhere/epdg.db'' [] =
     (Ret (Inl (Errorf ''database ping failed: '' (DriverError ''dial tcp: connection refused''))),
      [Open ''sqlite'' ''/nowhere/epdg.db'', SetMaxOpenConns 0 1, SetMaxIdleConns 0 1,
       SetConnMaxLifetime 0 3600000000000, Ping 0])"
  by (simp add: NewSQLiteDB_run time_Hour_def)

lemma NewSQLiteDB_no_pragma:
  "NewSQLiteDB no_pragma_driver ''epdg.db'' [] =
     (Ret (Inl (Errorf ''failed to enable foreign keys: ''
                  (DriverError ''attempt to write a readonly database''))),
      [Open ''sqlite'' ''epdg.db'', SetMaxOpenConns 0 1, SetMaxIdleConns 0 1,
       SetConnMaxLifetime 0 3600000000000, Ping 0, Exec 0 ''PRAGMA foreign_keys = ON;'' []])"
  by (simp add: NewSQLiteDB_run time_Hour_def)

text \<open>
  Claim C4. For every configuration \<open>NewMySqlDB\<close> first opens the driver \<^verbatim>\<open>mysql\<close> with the
  DSN \<^verbatim>\<open>user:password@tcp(host:port)/database?charset=CS&parseTime=True&loc=Local\<close>, where
  \<^verbatim>\<open>CS\<close> is \<^verbatim>\<open>utf8mb4\<close> exactly when the configured character set is empty, and the
  configured one otherwise. When the open succeeds it sets at most 25 open connections, at
  most 10 idle connections and a connection lifetime of one hour (3600000000000 ns), in
  this order, and then probes the pool with \<open>Ping\<close>. It returns a handle exactly when that
  probe reports no error, and the handle holds the opened pool; so every returned handle
  comes after the limits and a successful probe.
\<close>

theorem C4_NewMySqlDB_dsn_pool_ping:
  "\<exists>dsn.
     dsn = Username cfg @ '':'' @ Password cfg @ ''@tcp('' @ Host cfg @ '':'' @ itoa (sint (Port cfg))
             @ '')/'' @ Database cfg @ ''?charset=''
             @ (if Charset cfg = '''' then ''utf8mb4'' else Charset cfg)
             @ ''&parseTime=True&loc=Local'' \<and>
     (\<exists>rest. snd (NewMySqlDB drv cfg w) = w @ Open ''mysql'' dsn # rest) \<and>
     (\<forall>c. on_open drv w (Open ''mysql'' dsn) = Inr c \<longrightarrow>
        snd (NewMySqlDB drv cfg w) =
          w @ [Open ''mysql'' dsn, SetMaxOpenConns c 25, SetMaxIdleConns c 10,
               SetConnMaxLifetime c 3600000000000, Ping c] \<and>
        (fst (NewMySqlDB drv cfg w) = Ret (Inr \<lparr>db = Some c\<rparr>)) =
          (on_err drv
             (w @ [Open ''mysql'' dsn, SetMaxOpenConns c 25, SetMaxIdleConns c 10,
                   SetConnMaxLifetime c 3600000000000])
             (Ping c) = None)) \<and>
     (\<forall>h. fst (NewMySqlDB drv cfg w) = Ret (Inr h) \<longrightarrow>
        (\<exists>c. on_open drv w (Open ''mysql'' dsn) = Inr c \<and> h = \<lparr>db = Some c\<rparr> \<and>
             on_err drv
               (w @ [Open ''mysql'' dsn, SetMaxOpenConns c 25, SetMaxIdleConns c 10,
                     SetConnMaxLifetime c 3600000000000])
               (Ping c) = None))"
  by (simp add: NewMySqlDB_run mysql_dsn_def time_Hour_def split: sum.splits option.splits)

theorem C4_NewMySqlDB_witness:
  "on_open good_driver [] (Open ''mysql''
       ''root:secret@tcp(127.0.0.1:3306)/epdg?charset=utf8mb4&parseTime=True&loc=Local'') = Inr 0 \<and>
   NewMySqlDB good_driver example_Config [] =
     (Ret (Inr \<lparr>db = Some 0\<rparr>),
      [Open ''mysql'' ''root:secret@tcp(127.0.0.1:3306)/epdg?charset=utf8mb4&parseTime=True&loc=Local'',
       SetMaxOpenConns 0 25, SetMaxIdleConns 0 10, SetConnMaxLifetime 0 3600000000000, Ping 0])"
proof -
  have d: "Username example_Config @ '':'' @ Password example_Config @ ''@tcp('' @ Host example_Config
        @ '':'' @ itoa (sint (Port example_Config)) @ '')/'' @ Database example_Config @ ''?charset=''
        @ (if Charset example_Config = '''' then ''utf8mb4'' else Charset example_Config)
        @ ''&parseTime=True&loc=Local'' =
      ''root:secret@tcp(127.0.0.1:3306)/epdg?charset=utf8mb4&parseTime=True&loc=Local''"
    by (simp add: example_Config_def itoa_def)
  from C4_NewMySqlDB_dsn_pool_ping [of example_Config good_driver "[]"]
  obtain dsn where e: "dsn = ''root:secret@tcp(127.0.0.1:3306)/epdg?charset=utf8mb4&parseTime=True&loc=Local''"
    and r: "\<forall>c. on_open good_driver [] (Open ''mysql'' dsn) = Inr c \<longrightarrow>
        snd (NewMySqlDB good_driver example_Config []) =
          [] @ [Open ''mysql'' dsn, SetMaxOpenConns c 25, SetMaxIdleConns c 10,
               SetConnMaxLifetime c 3600000000000, Ping c] \<and>
        (fst (NewMySqlDB good_driver example_Config []) = Ret (Inr \<lparr>db = Some c\<rparr>)) =
          (on_err good_driver
             ([] @ [Open ''mysql'' dsn, SetMaxOpenConns c 25, SetMaxIdleConns c 10,
                   SetConnMaxLifetime c 3600000000000])
             (Ping c) = None)"
    unfolding d by blast
  have o: "on_open good_driver [] (Open ''mysql'' dsn) = Inr 0" by simp
  have p: "on_err good_driver ([] @ [Open ''mysql'' dsn, SetMaxOpenConns 0 25, SetMaxIdleConns 0 10,
                   SetConnMaxLifetime 0 3600000000000]) (Ping 0) = None" by simp
  from r o p have "snd (NewMySqlDB good_driver example_Config []) =
          [] @ [Open ''mysql'' dsn, SetMaxOpenConns 0 25, SetMaxIdleConns 0 10,
               SetConnMaxLifetime 0 3600000000000, Ping 0] \<and>
        fst (NewMySqlDB good_driver example_Config []) = Ret (Inr \<lparr>db = Some 0\<rparr>)"
    by blast
  then show ?thesis using o unfolding e by (simp add: prod_eq_iff)
qed

text \<open>
  Claim C5. For every path \<open>NewSQLiteDB\<close> opens the driver \<^verbatim>\<open>sqlite\<close> on the path. When
  the open succeeds it sets at most one open and at most one idle connection (and the
  lifetime of one hour), then probes the pool with \<open>Ping\<close>, and only when the probe
  reports no error issues the statement \<^verbatim>\<open>PRAGMA foreign_keys = ON;\<close>, in this order and
  each once. It returns a handle exactly when the probe and the statement both succeed;
  every returned handle holds the opened pool and the path, and comes after all these
  calls.
\<close>

theorem C5_NewSQLiteDB_limits_ping_pragma:
  "(\<exists>rest. snd (NewSQLiteDB drv dbPath w) = w @ Open ''sqlite'' dbPath # rest) \<and>
   (\<forall>c. on_open drv w (Open ''sqlite'' dbPath) = Inr c \<longrightarrow>
      (on_err drv
         (w @ [Open ''sqlite'' dbPath, SetMaxOpenConns c 1, SetMaxIdleConns c 1,
               SetConnMaxLifetime c 3600000000000])
         (Ping c) \<noteq> None \<longrightarrow>
       snd (NewSQLiteDB drv dbPath w) =
         w @ [Open ''sqlite'' dbPath, SetMaxOpenConns c 1, SetMaxIdleConns c 1,
              SetConnMaxLifetime c 3600000000000, Ping c]) \<and>
      (on_err drv
         (w @ [Open ''sqlite'' dbPath, SetMaxOpenConns c 1, SetMaxIdleConns c 1,
               SetConnMaxLifetime c 3600000000000])
         (Ping c) = None \<longrightarrow>
       snd (NewSQLiteDB drv dbPath w) =
         w @ [Open ''sqlite'' dbPath, SetMaxOpenConns c 1, SetMaxIdleConns c 1,
              SetConnMaxLifetime c 3600000000000, Ping c,
              Exec c ''PRAGMA foreign_keys = ON;'' []]) \<and>
      (fst (NewSQLiteDB drv dbPath w) = Ret (Inr \<lparr>sqlite_db = Some c, path = dbPath\<rparr>)) =
        (on_err drv
           (w @ [Open ''sqlite'' dbPath, SetMaxOpenConns c 1, SetMaxIdleConns c 1,
                 SetConnMaxLifetime c 3600000000000])
           (Ping c) = None \<and>
         (\<exists>r. on_exec drv
                (w @ [Open ''sqlite'' dbPath, SetMaxOpenConns c 1, SetMaxIdleConns c 1,
                      SetConnMaxLifetime c 3600000000000, Ping c])
                (Exec c ''PRAGMA foreign_keys = ON;'' []) = Inr r))) \<and>
   (\<forall>h. fst (NewSQLiteDB drv dbPath w) = Ret (Inr h) \<longrightarrow>
      (\<exists>c. on_open drv w (Open ''sqlite'' dbPath) = Inr c \<and>
           h = \<lparr>sqlite_db = Some c, path = dbPath\<rparr> \<and>
           snd (NewSQLiteDB drv dbPath w) =
             w @ [Open ''sqlite'' dbPath, SetMaxOpenConns c 1, SetMaxIdleConns c 1,
                  SetConnMaxLifetime c 3600000000000, Ping c,
                  Exec c ''PRAGMA foreign_keys = ON;'' []]))"
  by (auto simp add: NewSQLiteDB_run time_Hour_def split: sum.splits option.splits)

theorem C5_NewSQLiteDB_witness:
  "on_open good_driver [] (Open ''sqlite'' ''epdg.db'') = Inr 0 \<and>
   on_err good_driver
     [Open ''sqlite'' ''epdg.db'', SetMaxOpenConns 0 1, SetMaxIdleConns 0 1,
      SetConnMaxLifetime 0 3600000000000] (Ping 0) = None \<and>
   NewSQLiteDB good_driver ''epdg.db'' [] =
     (Ret (Inr \<lparr>sqlite_db = Some 0, path = ''epdg.db''\<rparr>),
      [Open ''sqlite'' ''epdg.db'', SetMaxOpenConns 0 1, SetMaxIdleConns 0 1,
       SetConnMaxLifetime 0 3600000000000, Ping 0, Exec 0 ''PRAGMA foreign_keys = ON;'' []]) \<and>
   snd (NewSQLiteDB unreachable_driver ''/nowhere/epdg.db'' []) =
     [Open ''sqlite'' ''/nowhere/epdg.db'', SetMaxOpenConns 0 1, SetMaxIdleConns 0 1,
      SetConnMaxLifetime 0 3600000000000, Ping 0]"
proof -
  have o: "on_open good_driver [] (Open ''sqlite'' ''epdg.db'') = Inr 0"
    by simp
  have p: "on_err good_driver
      ([] @ [Open ''sqlite'' ''epdg.db'', SetMaxOpenConns 0 1, SetMaxIdleConns 0 1,
             SetConnMaxLifetime 0 3600000000000]) (Ping 0) = None"
    by simp
  have x: "\<exists>r. on_exec good_driver
      ([] @ [Open ''sqlite'' ''epdg.db'', SetMaxOpenConns 0 1, SetMaxIdleConns 0 1,
             SetConnMaxLifetime 0 3600000000000, Ping 0])
      (Exec 0 ''PRAGMA foreign_keys = ON;'' []) = Inr r"
    by simp
  have g: "snd (NewSQLiteDB good_driver ''epdg.db'' []) =
        [] @ [Open ''sqlite'' ''epdg.db'', SetMaxOpenConns 0 1, SetMaxIdleConns 0 1,
              SetConnMaxLifetime 0 3600000000000, Ping 0, Exec 0 ''PRAGMA foreign_keys = ON;'' []] \<and>
      fst (NewSQLiteDB good_driver ''epdg.db'' []) =
        Ret (Inr \<lparr>sqlite_db = Some 0, path = ''epdg.db''\<rparr>)"
    using C5_NewSQLiteDB_limits_ping_pragma [of good_driver "''epdg.db''" "[]"] o p x
    by blast
  have o': "on_open unreachable_driver [] (Open ''sqlite'' ''/nowhere/epdg.db'') = Inr 0"
    by simp
  have p': "on_err unreachable_driver
      ([] @ [Open ''sqlite'' ''/nowhere/epdg.db'', SetMaxOpenConns 0 1, SetMaxIdleConns 0 1,
             SetConnMaxLifetime 0 3600000000000]) (Ping 0) \<noteq> None"
    by simp
  have u: "snd (NewSQLiteDB unreachable_driver ''/nowhere/epdg.db'' []) =
        [] @ [Open ''sqlite'' ''/nowhere/epdg.db'', SetMaxOpenConns 0 1, SetMaxIdleConns 0 1,
              SetConnMaxLifetime 0 3600000000000, Ping 0]"
    using C5_NewSQLiteDB_limits_ping_pragma [of unreachable_driver "''/nowhere/epdg.db''" "[]"] o' p'
    by blast
  show ?thesis
    using o p g u by (simp add: prod_eq_iff)
qed

text \<open>
  Claim C3, as the code has it. A constructor whose open or liveness probe fails (an
  unreachable host or path) returns an error that wraps the underlying one with the
  failing step, and no handle. Every error either constructor returns is such a wrapped
  error. Neither constructor ever calls \<open>Close\<close>: when the open succeeded and a later
  step failed, the pool that was opened is dropped without being closed.
\<close>

theorem C3_constructors_fail_without_closing:
  "(\<forall>e0. on_open drv w (Open ''mysql'' (mysql_dsn cfg (if Charset cfg = '''' then ''utf8mb4'' else Charset cfg))) = Inl e0 \<longrightarrow>
      fst (NewMySqlDB drv cfg w) = Ret (Inl (Errorf ''error open database: '' e0))) \<and>
   (\<forall>c e0. on_open drv w (Open ''mysql'' (mysql_dsn cfg (if Charset cfg = '''' then ''utf8mb4'' else Charset cfg))) = Inr c \<longrightarrow>
      on_err drv
        (w @ [Open ''mysql'' (mysql_dsn cfg (if Charset cfg = '''' then ''utf8mb4'' else Charset cfg)),
              SetMaxOpenConns c 25, SetMaxIdleConns c 10, SetConnMaxLifetime c 3600000000000])
        (Ping c) = Some e0 \<longrightarrow>
      fst (NewMySqlDB drv cfg w) = Ret (Inl (Errorf ''error verify connect: '' e0))) \<and>
   (\<forall>e0. on_open drv w (Open ''sqlite'' dbPath) = Inl e0 \<longrightarrow>
      fst (NewSQLiteDB drv dbPath w) = Ret (Inl (Errorf ''failed to open database: '' e0))) \<and>
   (\<forall>c e0. on_open drv w (Open ''sqlite'' dbPath) = Inr c \<longrightarrow>
      on_err drv
        (w @ [Open ''sqlite'' dbPath, SetMaxOpenConns c 1, SetMaxIdleConns c 1,
              SetConnMaxLifetime c 3600000000000])
        (Ping c) = Some e0 \<longrightarrow>
      fst (NewSQLiteDB drv dbPath w) = Ret (Inl (Errorf ''database ping failed: '' e0))) \<and>
   (\<forall>e. fst (NewMySqlDB drv cfg w) = Ret (Inl e) \<longrightarrow>
      (\<exists>e0. e = Errorf ''error open database: '' e0 \<or> e = Errorf ''error verify connect: '' e0)) \<and>
   (\<forall>e. fst (NewSQLiteDB drv dbPath w) = Ret (Inl e) \<longrightarrow>
      (\<exists>e0. e = Errorf ''failed to open database: '' e0 \<or> e = Errorf ''database ping failed: '' e0 \<or>
            e = Errorf ''failed to enable foreign keys: '' e0)) \<and>
   (\<forall>c. Close c \<notin> set (drop (length w) (snd (NewMySqlDB drv cfg w)))) \<and>
   (\<forall>c. Close c \<notin> set (drop (length w) (snd (NewSQLiteDB drv dbPath w))))"
  by (auto simp add: NewMySqlDB_run NewSQLiteDB_run time_Hour_def split: sum.splits option.splits)

theorem C3_constructors_witness:
  "on_open unreachable_driver [] (Open ''sqlite'' ''/nowhere/epdg.db'') = Inr 0 \<and>
   on_err unreachable_driver
     [Open ''sqlite'' ''/nowhere/epdg.db'', SetMaxOpenConns 0 1, SetMaxIdleConns 0 1,
      SetConnMaxLifetime 0 3600000000000] (Ping 0) = Some (DriverError ''dial tcp: connection refused'') \<and>
   fst (NewSQLiteDB unreachable_driver ''/nowhere/epdg.db'' []) =
     Ret (Inl (Errorf ''database ping failed: '' (DriverError ''dial tcp: connection refused''))) \<and>
   Close 0 \<notin> set (snd (NewSQLiteDB unreachable_driver ''/nowhere/epdg.db'' []))"
  using C3_constructors_fail_without_closing
      [of unreachable_driver "[]" example_Config "''/nowhere/epdg.db''"]
  by simp

text \<open>
  Claim C3 as stated fails. Behind an unreachable host the open itself succeeds and hands
  out pool 0, the probe fails, and \<open>NewMySqlDB\<close> returns the wrapped error after five
  calls, none of which closes pool 0: the pool stays allocated. The same happens to
  \<open>NewSQLiteDB\<close> on an unreachable path.
\<close>

theorem C3_pool_left_open_counterexample:
  "on_open unreachable_driver []
     (Open ''mysql'' ''root:secret@tcp(127.0.0.1:3306)/epdg?charset=utf8mb4&parseTime=True&loc=Local'') = Inr 0 \<and>
   NewMySqlDB unreachable_driver example_Config [] =
     (Ret (Inl (Errorf ''error verify connect: '' (DriverError ''dial tcp: connection refused''))),
      [Open ''mysql'' ''root:secret@tcp(127.0.0.1:3306)/epdg?charset=utf8mb4&parseTime=True&loc=Local'',
       SetMaxOpenConns 0 25, SetMaxIdleConns 0 10, SetConnMaxLifetime 0 3600000000000, Ping 0]) \<and>
   Close 0 \<notin> set (snd (NewMySqlDB unreachable_driver example_Config [])) \<and>
   on_open unreachable_driver [] (Open ''sqlite'' ''/nowhere/epdg.db'') = Inr 0 \<and>
   NewSQLiteDB unreachable_driver ''/nowhere/epdg.db'' [] =
     (Ret (Inl (Errorf ''database ping failed: '' (DriverError ''dial tcp: connection refused''))),
      [Open ''sqlite'' ''/nowhere/epdg.db'', SetMaxOpenConns 0 1, SetMaxIdleConns 0 1,
       SetConnMaxLifetime 0 3600000000000, Ping 0]) \<and>
   Close 0 \<notin> set (snd (NewSQLiteDB unreachable_driver ''/nowhere/epdg.db'' []))"
  by (simp add: NewMySqlDB_unreachable NewSQLiteDB_unreachable)

section \<open>Properties of the handles after Close\<close>

lemma SQLiteDB_Close_run:
  "SQLiteDB_Close drv s w =
     (case sqlite_db s of
        None \<Rightarrow> ((Ret None, s), w)
      | Some c \<Rightarrow> ((Ret (on_err drv w (Close c)), s\<lparr>sqlite_db := None\<rparr>), w @ [Close c]))"
  by (simp add: SQLiteDB_Close_def DB_Close_def split: option.splits)

lemma SQLiteDB_Close_closes:
  "SQLiteDB_Close drv s w = ((r, s1), w1) \<Longrightarrow> sqlite_db s1 = None \<and> r \<noteq> Panic"
  by (auto simp add: SQLiteDB_Close_run split: option.splits)

lemma MySqlDB_Close_run:
  "MySqlDB_Close drv m w =
     (case db m of
        None \<Rightarrow> (Ret None, w)
      | Some c \<Rightarrow> (Ret (on_err drv w (Close c)), w @ [Close c]))"
  by (simp add: MySqlDB_Close_def DB_Close_def split: option.splits)

lemma SQLiteDB_call_closed:
  "sqlite_db s = None \<Longrightarrow> SQLiteDB_call drv s op w = ((Ret (closed_reply op), s), w)"
  by (cases op)
    (simp_all add: SQLiteDB_Close_run SQLiteDB_Exec_def SQLiteDB_ExecContext_def SQLiteDB_Query_def
      SQLiteDB_QueryContext_def SQLiteDB_QueryRow_def SQLiteDB_QueryRowContext_def
      SQLiteDB_BeginTx_def SQLiteDB_BeginTxContext_def ErrNotConnected_def)

lemma SQLiteDB_calls_closed:
  "sqlite_db s = None \<Longrightarrow>
   SQLiteDB_calls drv s ops w = ((map (\<lambda>op. Ret (closed_reply op)) ops, s), w)"
  by (induction ops) (simp_all add: SQLiteDB_call_closed)

lemma MySqlDB_call_open:
  "db m = Some c \<Longrightarrow>
   \<exists>r. MySqlDB_call drv m op w = (Ret r, w @ [mysql_call_of c op])"
  by (cases op)
    (simp_all add: MySqlDB_Close_run MySqlDB_Ping_def DB_PingContext_def MySqlDB_Exec_def DB_Exec_def
      MySqlDB_Query_def DB_Query_def MySqlDB_QueryRow_def DB_QueryRow_def
      MySqlDB_BeginTransaction_def DB_Begin_def MySqlDB_Prepare_def DB_Prepare_def
      split: sum.splits)

lemma MySqlDB_calls_open:
  "db m = Some c \<Longrightarrow>
   snd (MySqlDB_calls drv m ops w) = w @ map (mysql_call_of c) ops \<and>
   length (fst (MySqlDB_calls drv m ops w)) = length ops \<and>
   Panic \<notin> set (fst (MySqlDB_calls drv m ops w))"
proof (induction ops arbitrary: w)
  case Nil
  then show ?case by simp
next
  case (Cons op ops)
  from Cons.prems obtain r where r: "MySqlDB_call drv m op w = (Ret r, w @ [mysql_call_of c op])"
    using MySqlDB_call_open by blast
  from Cons.IH [OF Cons.prems, of "w @ [mysql_call_of c op]"] r show ?case
    by (simp add: split_beta)
qed

lemma mysql_call_of_not_Open: "Open n d \<noteq> mysql_call_of c op"
  by (cases op) simp_all

lemma MySqlDB_Exec_nil: "db m = None \<Longrightarrow> MySqlDB_Exec drv m query args w = (Panic, w)"
  by (simp add: MySqlDB_Exec_def DB_Exec_def)

text \<open>
  Claim C1, as the code has it. Once \<open>Close\<close> has returned on the SQLite handle, the
  pool pointer is nil, and from then on, whatever the trace: \<open>Exec\<close>, \<open>ExecContext\<close>,
  \<open>Query\<close>, \<open>QueryContext\<close>, \<open>BeginTx\<close> and \<open>BeginTxContext\<close> return the error
  \<^verbatim>\<open>database not connected\<close>, and \<open>QueryRow\<close> and \<open>QueryRowContext\<close>, which return no
  error value, return a nil row. None of them makes a library call (the trace is
  unchanged), and neither they nor \<open>Close\<close> panic.
\<close>

theorem C1_SQLiteDB_after_Close:
  assumes "SQLiteDB_Close drv s w = ((r, s1), w1)"
  shows "r \<noteq> Panic \<and> sqlite_db s1 = None \<and>
    (\<forall>c q args w2. SQLiteDB_ExecContext drv s1 c q args w2 =
       (Ret (Inl (ErrorsNew ''database not connected'')), w2)) \<and>
    (\<forall>q args w2. SQLiteDB_Exec drv s1 q args w2 =
       (Ret (Inl (ErrorsNew ''database not connected'')), w2)) \<and>
    (\<forall>c q args w2. SQLiteDB_QueryContext drv s1 c q args w2 =
       (Ret (Inl (ErrorsNew ''database not connected'')), w2)) \<and>
    (\<forall>q args w2. SQLiteDB_Query drv s1 q args w2 =
       (Ret (Inl (ErrorsNew ''database not connected'')), w2)) \<and>
    (\<forall>c opts w2. SQLiteDB_BeginTxContext drv s1 c opts w2 =
       (Ret (Inl (ErrorsNew ''database not connected'')), w2)) \<and>
    (\<forall>w2. SQLiteDB_BeginTx drv s1 w2 =
       (Ret (Inl (ErrorsNew ''database not connected'')), w2)) \<and>
    (\<forall>c q args w2. SQLiteDB_QueryRowContext drv s1 c q args w2 = (Ret None, w2)) \<and>
    (\<forall>q args w2. SQLiteDB_QueryRow drv s1 q args w2 = (Ret None, w2))"
  using SQLiteDB_Close_closes [OF assms]
  by (simp add: SQLiteDB_Exec_def SQLiteDB_ExecContext_def SQLiteDB_Query_def
      SQLiteDB_QueryContext_def SQLiteDB_QueryRow_def SQLiteDB_QueryRowContext_def
      SQLiteDB_BeginTx_def SQLiteDB_BeginTxContext_def)

theorem C1_SQLiteDB_after_Close_witness:
  "SQLiteDB_Close good_driver example_SQLiteDB [] =
     ((Ret None, \<lparr>sqlite_db = None, path = ''epdg.db''\<rparr>), [Close 0]) \<and>
   SQLiteDB_ExecContext good_driver \<lparr>sqlite_db = None, path = ''epdg.db''\<rparr> Background
       ''DELETE FROM sessions'' [] [Close 0] =
     (Ret (Inl (ErrorsNew ''database not connected'')), [Close 0]) \<and>
   SQLiteDB_BeginTx good_driver \<lparr>sqlite_db = None, path = ''epdg.db''\<rparr> [Close 0] =
     (Ret (Inl (ErrorsNew ''database not connected'')), [Close 0])"
proof -
  have c: "SQLiteDB_Close good_driver example_SQLiteDB [] =
      ((Ret None, \<lparr>sqlite_db = None, path = ''epdg.db''\<rparr>), [Close 0])"
    by (simp add: SQLiteDB_Close_run example_SQLiteDB_def)
  from C1_SQLiteDB_after_Close [OF c] c show ?thesis
    by simp
qed

text \<open>
  Claim C1 as stated fails for \<open>QueryRow\<close> and \<open>QueryRowContext\<close>: on the closed handle
  they return a nil row, which carries no error at all, not the error
  \<^verbatim>\<open>database not connected\<close>.
\<close>

theorem C1_QueryRow_nil_counterexample:
  "SQLiteDB_Close good_driver example_SQLiteDB [] =
     ((Ret None, \<lparr>sqlite_db = None, path = ''epdg.db''\<rparr>), [Close 0]) \<and>
   SQLiteDB_QueryRowContext good_driver \<lparr>sqlite_db = None, path = ''epdg.db''\<rparr> Background
       ''SELECT 1'' [] [Close 0] = (Ret None, [Close 0]) \<and>
   SQLiteDB_QueryRow good_driver \<lparr>sqlite_db = None, path = ''epdg.db''\<rparr>
       ''SELECT 1'' [] [Close 0] = (Ret None, [Close 0]) \<and>
   reply_error (RRow None) \<noteq> Some ErrNotConnected"
  by (simp add: SQLiteDB_Close_run example_SQLiteDB_def SQLiteDB_QueryRow_def
      SQLiteDB_QueryRowContext_def)

text \<open>
  Claim C2, as the code has it. On the SQLite handle a second \<open>Close\<close> returns no error,
  makes no library call and leaves the handle as it is, because the first one set the pool
  pointer to nil. On the MySQL handle \<open>Close\<close> never sets the pool pointer to nil: with a
  pool, every \<open>Close\<close> calls the pool's \<open>Close\<close> and returns its answer, so the second
  one returns no error exactly when the pool's second \<open>Close\<close> reports none; only a
  handle without a pool makes \<open>Close\<close> a no-op.
\<close>

theorem C2_Close_twice:
  "(\<forall>r1 s1 w1. SQLiteDB_Close drv s w = ((r1, s1), w1) \<longrightarrow>
      SQLiteDB_Close drv s1 w1 = ((Ret None, s1), w1)) \<and>
   (\<forall>c. db m = Some c \<longrightarrow>
      MySqlDB_Close drv m w = (Ret (on_err drv w (Close c)), w @ [Close c]) \<and>
      MySqlDB_Close drv m (w @ [Close c]) =
        (Ret (on_err drv (w @ [Close c]) (Close c)), w @ [Close c, Close c])) \<and>
   (db m = None \<longrightarrow> MySqlDB_Close drv m w = (Ret None, w))"
  by (auto simp add: SQLiteDB_Close_run MySqlDB_Close_run split: option.splits)

theorem C2_Close_twice_witness:
  "SQLiteDB_Close good_driver example_SQLiteDB [] =
     ((Ret None, \<lparr>sqlite_db = None, path = ''epdg.db''\<rparr>), [Close 0]) \<and>
   SQLiteDB_Close good_driver \<lparr>sqlite_db = None, path = ''epdg.db''\<rparr> [Close 0] =
     ((Ret None, \<lparr>sqlite_db = None, path = ''epdg.db''\<rparr>), [Close 0]) \<and>
   db example_MySqlDB = Some 0 \<and>
   MySqlDB_Close good_driver example_MySqlDB ([] @ [Close 0]) = (Ret None, [] @ [Close 0, Close 0])"
proof -
  have c: "SQLiteDB_Close good_driver example_SQLiteDB [] =
      ((Ret None, \<lparr>sqlite_db = None, path = ''epdg.db''\<rparr>), [Close 0])"
    by (simp add: SQLiteDB_Close_run example_SQLiteDB_def)
  have d: "db example_MySqlDB = Some 0"
    by (simp add: example_MySqlDB_def)
  have e: "on_err good_driver ([] @ [Close 0]) (Close 0) = None"
    by simp
  from C2_Close_twice [of good_driver example_SQLiteDB "[]" example_MySqlDB] c d
  have "SQLiteDB_Close good_driver \<lparr>sqlite_db = None, path = ''epdg.db''\<rparr> [Close 0] =
      ((Ret None, \<lparr>sqlite_db = None, path = ''epdg.db''\<rparr>), [Close 0]) \<and>
    MySqlDB_Close good_driver example_MySqlDB ([] @ [Close 0]) =
      (Ret (on_err good_driver ([] @ [Close 0]) (Close 0)), [] @ [Close 0, Close 0])"
    by blast
  with c d e show ?thesis
    by simp
qed

text \<open>
  Claim C2 as stated fails on the MySQL handle: the handle that \<open>NewMySqlDB\<close> returns
  still holds pool 0 after the first \<open>Close\<close>, and the second \<open>Close\<close> is not a no-op
  but a second \<open>Close\<close> call on the pool, whose answer it returns.
\<close>

theorem C2_MySqlDB_Close_counterexample:
  "fst (NewMySqlDB good_driver example_Config []) = Ret (Inr example_MySqlDB) \<and>
   db example_MySqlDB \<noteq> None \<and>
   MySqlDB_Close good_driver example_MySqlDB (snd (NewMySqlDB good_driver example_Config [])) =
     (Ret None, snd (NewMySqlDB good_driver example_Config []) @ [Close 0]) \<and>
   MySqlDB_Close good_driver example_MySqlDB
       (snd (NewMySqlDB good_driver example_Config []) @ [Close 0]) =
     (Ret None, snd (NewMySqlDB good_driver example_Config []) @ [Close 0, Close 0])"
  by (simp add: NewMySqlDB_good MySqlDB_Close_run example_MySqlDB_def)

lemma MySqlDB_call_nil:
  "db m = None \<Longrightarrow>
   MySqlDB_call drv m op w = (if op = M_Close then (Ret (RErr None), w) else (Panic, w))"
  by (cases op)
    (simp_all add: MySqlDB_Close_run MySqlDB_Ping_def DB_PingContext_def MySqlDB_Exec_def DB_Exec_def
      MySqlDB_Query_def DB_Query_def MySqlDB_QueryRow_def DB_QueryRow_def
      MySqlDB_BeginTransaction_def DB_Begin_def MySqlDB_Prepare_def DB_Prepare_def)

lemma MySqlDB_calls_step:
  assumes "db m = Some c"
  shows "MySqlDB_calls drv m (op # ops) w =
     (fst (MySqlDB_call drv m op w) # fst (MySqlDB_calls drv m ops (w @ [mysql_call_of c op])),
      w @ mysql_call_of c op # map (mysql_call_of c) ops)"
proof -
  from MySqlDB_call_open [OF assms, of drv op w] obtain r
    where r: "MySqlDB_call drv m op w = (Ret r, w @ [mysql_call_of c op])"
    by blast
  from MySqlDB_calls_open [OF assms, of drv ops "w @ [mysql_call_of c op]"]
  have "snd (MySqlDB_calls drv m ops (w @ [mysql_call_of c op])) =
      w @ mysql_call_of c op # map (mysql_call_of c) ops"
    by simp
  with r show ?thesis
    by (simp add: split_beta)
qed

text \<open>
  Claim C8, as the code has it. No operation of either handle ever reopens a pool. On the
  SQLite handle, once \<open>Close\<close> has returned, every later sequence of operations leaves
  the handle closed and makes no library call at all; each operation returns the error
  \<^verbatim>\<open>database not connected\<close>, or a nil row from \<open>QueryRow\<close> and \<open>QueryRowContext\<close>, or no
  error from a further \<open>Close\<close>. The MySQL handle keeps no closed state of its own. On a
  handle with a pool, \<open>Close\<close> leaves the pool pointer set, and before and after it every
  operation makes its one call on that pool and returns exactly the pool's answer:
  \<open>Close\<close>, \<open>Ping\<close> and \<open>QueryRow\<close> pass it on as it is, and \<open>Exec\<close>, \<open>Query\<close>,
  \<open>BeginTransaction\<close> and \<open>Prepare\<close> wrap an error in their own context; a sequence of
  operations is these calls one after the other on the growing trace, none of them an
  \<open>Open\<close>, and none panics. On a handle without a pool \<open>Close\<close> returns no error and
  makes no call, and every other operation panics.
\<close>

theorem C8_closed_stays_closed:
  "(\<forall>r s1 w1. SQLiteDB_Close drv s w = ((r, s1), w1) \<longrightarrow>
      (\<forall>ops w2. SQLiteDB_calls drv s1 ops w2 = ((map (\<lambda>op. Ret (closed_reply op)) ops, s1), w2))) \<and>
   (\<forall>c. db m = Some c \<longrightarrow>
      (\<forall>w2. MySqlDB_call drv m M_Close w2 =
         (Ret (RErr (on_err drv w2 (Close c))), w2 @ [Close c])) \<and>
      (\<forall>x w2. MySqlDB_call drv m (M_Ping x) w2 =
         (Ret (RErr (on_err drv w2 (PingContext c x))), w2 @ [PingContext c x])) \<and>
      (\<forall>q a w2. MySqlDB_call drv m (M_Exec q a) w2 =
         (Ret (case on_exec drv w2 (Exec c q a) of
                 Inl e \<Rightarrow> RCount 0 (Some (Errorf ''error execute: '' e))
               | Inr res \<Rightarrow>
                   (case RowsAffected res of
                      Inl e \<Rightarrow> RCount 0 (Some (Errorf ''error fetch rows affected: '' e))
                    | Inr n \<Rightarrow> RCount n None)),
          w2 @ [Exec c q a])) \<and>
      (\<forall>q a w2. MySqlDB_call drv m (M_Query q a) w2 =
         (Ret (RRows (case on_query drv w2 (Query c q a) of
                        Inl e \<Rightarrow> Inl (Errorf ''error query: '' e)
                      | Inr rows \<Rightarrow> Inr rows)),
          w2 @ [Query c q a])) \<and>
      (\<forall>q a w2. MySqlDB_call drv m (M_QueryRow q a) w2 =
         (Ret (RRow (Some (on_row drv w2 (QueryRow c q a)))), w2 @ [QueryRow c q a])) \<and>
      (\<forall>w2. MySqlDB_call drv m M_BeginTransaction w2 =
         (Ret (RTx (case on_begin drv w2 (Begin c) of
                      Inl e \<Rightarrow> Inl (Errorf ''error begin transaction: '' e)
                    | Inr tx \<Rightarrow> Inr tx)),
          w2 @ [Begin c])) \<and>
      (\<forall>q w2. MySqlDB_call drv m (M_Prepare q) w2 =
         (Ret (RStmt (case on_prepare drv w2 (Prepare c q) of
                        Inl e \<Rightarrow> Inl (Errorf ''error prepare: '' e)
                      | Inr stmt \<Rightarrow> Inr stmt)),
          w2 @ [Prepare c q])) \<and>
      (\<forall>op ops w2. MySqlDB_calls drv m (op # ops) w2 =
         (fst (MySqlDB_call drv m op w2) #
            fst (MySqlDB_calls drv m ops (w2 @ [mysql_call_of c op])),
          w2 @ mysql_call_of c op # map (mysql_call_of c) ops)) \<and>
      (\<forall>ops w2.
         length (fst (MySqlDB_calls drv m ops w2)) = length ops \<and>
         Panic \<notin> set (fst (MySqlDB_calls drv m ops w2)) \<and>
         (\<forall>n d. Open n d \<notin> set (map (mysql_call_of c) ops)))) \<and>
   (db m = None \<longrightarrow>
      (\<forall>w2. MySqlDB_call drv m M_Close w2 = (Ret (RErr None), w2)) \<and>
      (\<forall>op w2. op \<noteq> M_Close \<longrightarrow> MySqlDB_call drv m op w2 = (Panic, w2)))"
proof (intro conjI allI impI)
  fix r s1 w1 ops w2
  assume "SQLiteDB_Close drv s w = ((r, s1), w1)"
  then have "sqlite_db s1 = None"
    by (simp add: SQLiteDB_Close_closes)
  then show "SQLiteDB_calls drv s1 ops w2 = ((map (\<lambda>op. Ret (closed_reply op)) ops, s1), w2)"
    by (rule SQLiteDB_calls_closed)
next
  fix c w2
  assume "db m = Some c"
  then show "MySqlDB_call drv m M_Close w2 = (Ret (RErr (on_err drv w2 (Close c))), w2 @ [Close c])"
    by (simp add: MySqlDB_Close_run)
next
  fix c x w2
  assume "db m = Some c"
  then show "MySqlDB_call drv m (M_Ping x) w2 =
      (Ret (RErr (on_err drv w2 (PingContext c x))), w2 @ [PingContext c x])"
    by (simp add: MySqlDB_Ping_def DB_PingContext_def)
next
  fix c q a w2
  assume "db m = Some c"
  then show "MySqlDB_call drv m (M_Exec q a) w2 =
      (Ret (case on_exec drv w2 (Exec c q a) of
              Inl e \<Rightarrow> RCount 0 (Some (Errorf ''error execute: '' e))
            | Inr res \<Rightarrow>
                (case RowsAffected res of
                   Inl e \<Rightarrow> RCount 0 (Some (Errorf ''error fetch rows affected: '' e))
                 | Inr n \<Rightarrow> RCount n None)),
       w2 @ [Exec c q a])"
    by (simp add: MySqlDB_Exec_open split: sum.splits)
next
  fix c q a w2
  assume "db m = Some c"
  then show "MySqlDB_call drv m (M_Query q a) w2 =
      (Ret (RRows (case on_query drv w2 (Query c q a) of
                     Inl e \<Rightarrow> Inl (Errorf ''error query: '' e)
                   | Inr rows \<Rightarrow> Inr rows)),
       w2 @ [Query c q a])"
    by (simp add: MySqlDB_Query_def DB_Query_def split: sum.splits)
next
  fix c q a w2
  assume "db m = Some c"
  then show "MySqlDB_call drv m (M_QueryRow q a) w2 =
      (Ret (RRow (Some (on_row drv w2 (QueryRow c q a)))), w2 @ [QueryRow c q a])"
    by (simp add: MySqlDB_QueryRow_def DB_QueryRow_def)
next
  fix c w2
  assume "db m = Some c"
  then show "MySqlDB_call drv m M_BeginTransaction w2 =
      (Ret (RTx (case on_begin drv w2 (Begin c) of
                   Inl e \<Rightarrow> Inl (Errorf ''error begin transaction: '' e)
                 | Inr tx \<Rightarrow> Inr tx)),
       w2 @ [Begin c])"
    by (simp add: MySqlDB_BeginTransaction_def DB_Begin_def split: sum.splits)
next
  fix c q w2
  assume "db m = Some c"
  then show "MySqlDB_call drv m (M_Prepare q) w2 =
      (Ret (RStmt (case on_prepare drv w2 (Prepare c q) of
                     Inl e \<Rightarrow> Inl (Errorf ''error prepare: '' e)
                   | Inr stmt \<Rightarrow> Inr stmt)),
       w2 @ [Prepare c q])"
    by (simp add: MySqlDB_Prepare_def DB_Prepare_def split: sum.splits)
next
  fix c op ops w2
  assume "db m = Some c"
  then show "MySqlDB_calls drv m (op # ops) w2 =
      (fst (MySqlDB_call drv m op w2) # fst (MySqlDB_calls drv m ops (w2 @ [mysql_call_of c op])),
       w2 @ mysql_call_of c op # map (mysql_call_of c) ops)"
    by (rule MySqlDB_calls_step)
next
  fix c ops w2
  assume c: "db m = Some c"
  from MySqlDB_calls_open [OF c, of drv ops w2]
  show "length (fst (MySqlDB_calls drv m ops w2)) = length ops"
    and "Panic \<notin> set (fst (MySqlDB_calls drv m ops w2))"
    by simp_all
next
  fix c ops w2 n d
  show "Open n d \<notin> set (map (mysql_call_of c) ops)"
    by (auto simp add: mysql_call_of_not_Open)
next
  fix w2
  assume "db m = None"
  then show "MySqlDB_call drv m M_Close w2 = (Ret (RErr None), w2)"
    by (simp add: MySqlDB_Close_run)
next
  fix op w2
  assume "db m = None" and "op \<noteq> M_Close"
  then show "MySqlDB_call drv m op w2 = (Panic, w2)"
    by (simp add: MySqlDB_call_nil)
qed

theorem C8_closed_stays_closed_witness:
  "SQLiteDB_Close good_driver example_SQLiteDB [] =
     ((Ret None, \<lparr>sqlite_db = None, path = ''epdg.db''\<rparr>), [Close 0]) \<and>
   SQLiteDB_calls good_driver \<lparr>sqlite_db = None, path = ''epdg.db''\<rparr>
       [S_Exec ''DELETE FROM sessions'' [], S_QueryRow ''SELECT 1'' [], S_BeginTx, S_Close] [Close 0] =
     (([Ret (RResult (Inl ErrNotConnected)), Ret (RRow None), Ret (RTx (Inl ErrNotConnected)),
        Ret (RErr None)],
       \<lparr>sqlite_db = None, path = ''epdg.db''\<rparr>), [Close 0]) \<and>
   db example_MySqlDB = Some 0 \<and>
   MySqlDB_calls good_driver example_MySqlDB [M_Close, M_Query ''SELECT 1'' []] [] =
     ([Ret (RErr None), Ret (RRows (Inl (Errorf ''error query: '' errDBClosed)))],
      [Close 0, Query 0 ''SELECT 1'' []])"
proof -
  have c: "SQLiteDB_Close good_driver example_SQLiteDB [] =
      ((Ret None, \<lparr>sqlite_db = None, path = ''epdg.db''\<rparr>), [Close 0])"
    by (simp add: SQLiteDB_Close_run example_SQLiteDB_def)
  have d: "db example_MySqlDB = Some 0"
    by (simp add: example_MySqlDB_def)
  have q: "on_query good_driver ([] @ [mysql_call_of 0 M_Close]) (Query 0 ''SELECT 1'' []) =
      Inl errDBClosed"
    by (simp add: good_driver_def closed_in_def)
  note t = C8_closed_stays_closed [of good_driver example_SQLiteDB "[]" example_MySqlDB]
  note ts = t [THEN conjunct1, rule_format, OF c]
  note tm = t [THEN conjunct2, THEN conjunct1, rule_format, OF d]
  note t_close = tm [THEN conjunct1, rule_format]
  note t_query = tm [THEN conjunct2, THEN conjunct2, THEN conjunct2, THEN conjunct1, rule_format]
  note t_calls = tm [THEN conjunct2, THEN conjunct2, THEN conjunct2, THEN conjunct2, THEN conjunct2,
      THEN conjunct2, THEN conjunct2, THEN conjunct1, rule_format]
  have a: "SQLiteDB_calls good_driver \<lparr>sqlite_db = None, path = ''epdg.db''\<rparr>
       [S_Exec ''DELETE FROM sessions'' [], S_QueryRow ''SELECT 1'' [], S_BeginTx, S_Close] [Close 0] =
     (([Ret (RResult (Inl ErrNotConnected)), Ret (RRow None), Ret (RTx (Inl ErrNotConnected)),
        Ret (RErr None)],
       \<lparr>sqlite_db = None, path = ''epdg.db''\<rparr>), [Close 0])"
    by (simp only: ts) simp
  have b: "MySqlDB_calls good_driver example_MySqlDB [M_Close, M_Query ''SELECT 1'' []] [] =
     ([Ret (RErr None), Ret (RRows (Inl (Errorf ''error query: '' errDBClosed)))],
      [Close 0, Query 0 ''SELECT 1'' []])"
    by (simp only: t_calls t_close t_query) (simp add: q [simplified])
  from a b c d show ?thesis
    by simp
qed

text \<open>
  Claim C8 as stated fails. On the closed SQLite handle \<open>QueryRow\<close> returns a nil row,
  which reports no error at all. On the MySQL handle with a pool, \<open>Exec\<close> after
  \<open>Close\<close> is neither refused by the handle nor answered with
  \<^verbatim>\<open>database not connected\<close>: it makes its call on the pool and returns what the pool
  answers, wrapped as an execution error. On a MySQL handle without a pool \<open>Close\<close>
  returns no error and the \<open>Exec\<close> after it panics.
\<close>

theorem C8_MySqlDB_after_Close_counterexample:
  "SQLiteDB_calls good_driver example_SQLiteDB [S_Close, S_QueryRow ''SELECT 1'' []] [] =
     (([Ret (RErr None), Ret (RRow None)], \<lparr>sqlite_db = None, path = ''epdg.db''\<rparr>), [Close 0]) \<and>
   reply_error (RRow None) = None \<and>
   MySqlDB_calls good_driver example_MySqlDB [M_Close, M_Exec ''DELETE FROM sessions'' []] [] =
     ([Ret (RErr None), Ret (RCount 0 (Some (Errorf ''error execute: '' errDBClosed)))],
      [Close 0, Exec 0 ''DELETE FROM sessions'' []]) \<and>
   Errorf ''error execute: '' errDBClosed \<noteq> ErrNotConnected \<and>
   MySqlDB_calls good_driver \<lparr>db = None\<rparr> [M_Close, M_Exec ''DELETE FROM sessions'' []] [] =
     ([Ret (RErr None), Panic], [])"
  by (simp add: SQLiteDB_Close_run SQLiteDB_QueryRow_def SQLiteDB_QueryRowContext_def
      example_SQLiteDB_def MySqlDB_Close_run MySqlDB_Exec_open MySqlDB_Exec_nil example_MySqlDB_def
      ErrNotConnected_def)

section \<open>Properties of the logging facade\<close>

lemma mapLogLevel_unknown:
  "level \<notin> {''debug'', ''info'', ''warn'', ''error'', ''panic'', ''fatal''} \<Longrightarrow>
   mapLogLevel level = zapcore_InfoLevel"
  by (simp add: mapLogLevel_def DebugLevel_def InfoLevel_def WarnLevel_def ErrorLevel_def
      PanicLevel_def FatalLevel_def)

lemma mapLogLevel_valid: "mapLogLevel level \<noteq> zapcore_InvalidLevel"
  by (simp add: mapLogLevel_def)

lemma Init_run:
  "Init sys cfg g =
     (if Filename cfg \<noteq> '''' \<and> MkdirAll sys (filepath_Dir sys (Filename cfg)) 493 \<noteq> None
      then (MkdirAll sys (filepath_Dir sys (Filename cfg)) 493, g)
      else (None,
            Some (Sugar
              ((if Filename cfg \<noteq> ''''
                then [NewCore JSONEncoder
                        (lumberjack_Logger (Filename cfg) (MaxSize cfg) (MaxBackups cfg)
                           (MaxAge cfg) (Compress cfg))
                        (mapLogLevel (Level cfg))]
                else []) @
               (if Console cfg then [NewCore ConsoleEncoder os_Stdout (mapLogLevel (Level cfg))]
                else []))
              [AddCaller, AddCallerSkip 1])))"
  by (auto simp add: Init_def Let_def mapLogLevel_valid getJSONEncoder_def getConsoleEncoder_def
      split: option.splits)

text \<open>
  Claim C7. For every configuration whose level string is none of debug, info, warn, error,
  panic and fatal, the level is mapped to info, and every sink of the logger that \<open>Init\<close>
  installs has the info threshold: a record passes the sink exactly when its severity is
  info or above, so info, warn, error, panic and fatal records pass and debug records do
  not. With a file name and the console both configured (and the log directory created)
  the installed logger has exactly the two sinks, the file sink and the console sink, both
  at info.
\<close>

theorem C7_unknown_level_is_info:
  assumes "Level cfg \<notin> {''debug'', ''info'', ''warn'', ''error'', ''panic'', ''fatal''}"
  shows "mapLogLevel (Level cfg) = zapcore_InfoLevel \<and>
    (\<forall>lg. snd (Init sys cfg g) = Some lg \<longrightarrow> fst (Init sys cfg g) = None \<longrightarrow>
       (\<forall>k \<in> set (logger_cores lg).
          core_level k = zapcore_InfoLevel \<and>
          (\<forall>lvl. passes k lvl = (severity zapcore_InfoLevel \<le> severity lvl)) \<and>
          passes k zapcore_InfoLevel \<and> passes k zapcore_WarnLevel \<and> passes k zapcore_ErrorLevel \<and>
          passes k zapcore_PanicLevel \<and> passes k zapcore_FatalLevel \<and>
          \<not> passes k zapcore_DebugLevel)) \<and>
    (Filename cfg \<noteq> '''' \<longrightarrow> Console cfg \<longrightarrow>
     MkdirAll sys (filepath_Dir sys (Filename cfg)) 493 = None \<longrightarrow>
       Init sys cfg g =
         (None,
          Some (Sugar
            [NewCore JSONEncoder
               (lumberjack_Logger (Filename cfg) (MaxSize cfg) (MaxBackups cfg) (MaxAge cfg)
                  (Compress cfg))
               zapcore_InfoLevel,
             NewCore ConsoleEncoder os_Stdout zapcore_InfoLevel]
            [AddCaller, AddCallerSkip 1])))"
proof -
  have m: "mapLogLevel (Level cfg) = zapcore_InfoLevel"
    using assms by (rule mapLogLevel_unknown)
  show ?thesis
    by (auto simp add: Init_run m passes_def split: if_splits)
qed

theorem C7_unknown_level_witness:
  "Level example_LogConfig \<notin> {''debug'', ''info'', ''warn'', ''error'', ''panic'', ''fatal''} \<and>
   Init good_os example_LogConfig None =
     (None,
      Some (Sugar
        [NewCore JSONEncoder (lumberjack_Logger ''logs/app.log'' 100 3 7 False) zapcore_InfoLevel,
         NewCore ConsoleEncoder os_Stdout zapcore_InfoLevel]
        [AddCaller, AddCallerSkip 1]))"
proof -
  have h: "Level example_LogConfig \<notin> {''debug'', ''info'', ''warn'', ''error'', ''panic'', ''fatal''}"
    by (simp add: example_LogConfig_def)
  have f: "Filename example_LogConfig \<noteq> ''''" and c: "Console example_LogConfig"
    and d: "MkdirAll good_os (filepath_Dir good_os (Filename example_LogConfig)) 493 = None"
    by (simp_all add: example_LogConfig_def good_os_def)
  from C7_unknown_level_is_info [OF h, of good_os None] f c d
  have "Init good_os example_LogConfig None =
         (None,
          Some (Sugar
            [NewCore JSONEncoder
               (lumberjack_Logger (Filename example_LogConfig) (MaxSize example_LogConfig)
                  (MaxBackups example_LogConfig) (MaxAge example_LogConfig)
                  (Compress example_LogConfig))
               zapcore_InfoLevel,
             NewCore ConsoleEncoder os_Stdout zapcore_InfoLevel]
            [AddCaller, AddCallerSkip 1]))"
    by blast
  with h show ?thesis
    by (simp add: example_LogConfig_def)
qed

text \<open>
  Claim C10. \<open>Init\<close> returns an error only when a file name is configured and creating
  the log directory fails, and it then returns that error and leaves the process-wide
  logger as it was. When it returns no error the process-wide logger is set to a new
  instance. So the instance changes only when \<open>Init\<close> succeeds.
\<close>

theorem C10_Init_failure_keeps_logger:
  "(\<forall>e. fst (Init sys cfg g) = Some e \<longrightarrow>
      snd (Init sys cfg g) = g \<and> Filename cfg \<noteq> '''' \<and>
      MkdirAll sys (filepath_Dir sys (Filename cfg)) 493 = Some e) \<and>
   (fst (Init sys cfg g) = None \<longrightarrow>
      (\<exists>cores. snd (Init sys cfg g) = Some (Sugar cores [AddCaller, AddCallerSkip 1]))) \<and>
   (snd (Init sys cfg g) \<noteq> g \<longrightarrow> fst (Init sys cfg g) = None)"
  by (auto simp add: Init_run split: if_splits)

theorem C10_Init_witness:
  "Init readonly_os example_LogConfig (Some (Sugar [] [])) =
     (Some (DriverError ''mkdir logs: read-only file system''), Some (Sugar [] [])) \<and>
   fst (Init good_os example_LogConfig (Some (Sugar [] []))) = None \<and>
   snd (Init good_os example_LogConfig (Some (Sugar [] []))) \<noteq> Some (Sugar [] [])"
proof -
  have a: "fst (Init readonly_os example_LogConfig (Some (Sugar [] []))) =
      Some (DriverError ''mkdir logs: read-only file system'')"
    by (simp add: Init_run readonly_os_def example_LogConfig_def)
  have b: "snd (Init good_os example_LogConfig (Some (Sugar [] []))) \<noteq> Some (Sugar [] [])"
    by (simp add: Init_run good_os_def example_LogConfig_def)
  from C10_Init_failure_keeps_logger [of readonly_os example_LogConfig "Some (Sugar [] [])"] a
  have "snd (Init readonly_os example_LogConfig (Some (Sugar [] []))) = Some (Sugar [] [])"
    by blast
  moreover
  from C10_Init_failure_keeps_logger [of good_os example_LogConfig "Some (Sugar [] [])"] b
  have "fst (Init good_os example_LogConfig (Some (Sugar [] []))) = None"
    by blast
  ultimately show ?thesis
    using a b by (simp add: prod_eq_iff)
qed

section \<open>Properties of goroutines sharing the SQLite handle\<close>

lemma start_inv: "lock_inv (start s w progs)"
  by (simp add: lock_inv_def start_def)

lemma lock_inv_update:
  assumes inv: "lock_inv st"
    and t: "t < length (goroutines st)"
    and gs: "goroutines st' = (goroutines st)[t := g]"
    and own: "(g_phase g \<noteq> Idle) = (mu st' = Some t)"
    and others: "\<And>u. u \<noteq> t \<Longrightarrow> (mu st' = Some u) = (mu st = Some u)"
  shows "lock_inv st'"
  unfolding lock_inv_def
proof (intro conjI allI impI)
  fix u
  assume "u < length (goroutines st')"
  then have u: "u < length (goroutines st)"
    by (simp add: gs)
  show "(g_phase (goroutines st' ! u) \<noteq> Idle) = (mu st' = Some u)"
  proof (cases "u = t")
    case True
    with t own show ?thesis
      by (simp add: gs)
  next
    case False
    with inv u others [of u] show ?thesis
      by (simp add: gs lock_inv_def)
  qed
next
  fix u
  assume m: "mu st' = Some u"
  show "u < length (goroutines st')"
  proof (cases "u = t")
    case True
    with t show ?thesis
      by (simp add: gs)
  next
    case False
    with inv m others [of u] show ?thesis
      by (simp add: gs lock_inv_def)
  qed
qed

lemma method_returns_eq:
  "method_returns drv t op st =
     st\<lparr> handle := snd (fst (SQLiteDB_call drv (handle st) op (lib_calls st))),
         lib_calls := snd (SQLiteDB_call drv (handle st) op (lib_calls st)),
         goroutines := (goroutines st)
           [t := (goroutines st ! t)
              \<lparr> g_phase := Unlocking,
                g_program :=
                  (if fst (fst (SQLiteDB_call drv (handle st) op (lib_calls st))) = Panic then []
                   else g_program (goroutines st ! t)),
                g_replies := g_replies (goroutines st ! t) @
                  [fst (fst (SQLiteDB_call drv (handle st) op (lib_calls st)))] \<rparr>] \<rparr>"
  by (simp add: method_returns_def split_beta)

lemma method_returns_fields:
  "mu (method_returns drv t op st) = mu st \<and>
   (\<exists>g. goroutines (method_returns drv t op st) = (goroutines st)[t := g] \<and>
        g_phase g = Unlocking)"
proof
  show "mu (method_returns drv t op st) = mu st"
    by (simp add: method_returns_eq)
  show "\<exists>g. goroutines (method_returns drv t op st) = (goroutines st)[t := g] \<and>
        g_phase g = Unlocking"
    by (subst method_returns_eq, rule exI, rule conjI, simp, simp)
qed

lemma method_returns_inv:
  assumes "lock_inv st" and "t < length (goroutines st)" and "mu st = Some t"
  shows "lock_inv (method_returns drv t op st)"
proof -
  from method_returns_fields [of drv t op st] obtain g
    where m: "mu (method_returns drv t op st) = mu st"
      and g: "goroutines (method_returns drv t op st) = (goroutines st)[t := g]"
      and p: "g_phase g = Unlocking"
    by blast
  show ?thesis
    by (rule lock_inv_update [OF assms(1) assms(2) g]) (simp_all add: m p assms(3))
qed

lemma step_inv:
  assumes inv: "lock_inv st"
  shows "lock_inv (step drv t st)"
proof (cases "length (goroutines st) \<le> t")
  case True
  with inv show ?thesis
    by (simp add: step_def)
next
  case False
  then have t: "t < length (goroutines st)"
    by simp
  from inv t have own: "(g_phase (goroutines st ! t) \<noteq> Idle) = (mu st = Some t)"
    by (simp add: lock_inv_def)
  show ?thesis
  proof (cases "g_phase (goroutines st ! t)")
    case Idle
    show ?thesis
    proof (cases "g_program (goroutines st ! t)")
      case Nil
      with inv Idle t show ?thesis
        by (simp add: step_def)
    next
      case (Cons op rest)
      show ?thesis
      proof (cases "mu st")
        case (Some u)
        with inv Idle Cons t show ?thesis
          by (simp add: step_def)
      next
        case None
        have s: "step drv t st =
            st\<lparr> mu := Some t,
                goroutines := (goroutines st)
                  [t := (goroutines st ! t)\<lparr> g_phase := Holding op, g_program := rest \<rparr>] \<rparr>"
          using Idle Cons None t by (simp add: step_def)
        show ?thesis
          unfolding s
          by (rule lock_inv_update [OF inv t, where g = "(goroutines st ! t)\<lparr> g_phase := Holding op, g_program := rest \<rparr>"])
            (simp_all add: None)
      qed
    qed
  next
    case (Holding op)
    with own have m: "mu st = Some t"
      by simp
    show ?thesis
    proof (cases "sqlite_db (handle st) = None")
      case True
      with Holding t have "step drv t st = method_returns drv t op st"
        by (simp add: step_def)
      with method_returns_inv [OF inv t m] show ?thesis
        by simp
    next
      case False
      then obtain c where c: "sqlite_db (handle st) = Some c"
        by blast
      have s: "step drv t st =
          st\<lparr> goroutines := (goroutines st)[t := (goroutines st ! t)\<lparr> g_phase := Calling op \<rparr>] \<rparr>"
        using Holding t by (simp add: step_def c)
      show ?thesis
        unfolding s
        by (rule lock_inv_update [OF inv t, where g = "(goroutines st ! t)\<lparr> g_phase := Calling op \<rparr>"])
          (simp_all add: m)
    qed
  next
    case (Calling op)
    with own have m: "mu st = Some t"
      by simp
    from Calling t have "step drv t st = method_returns drv t op st"
      by (simp add: step_def)
    with method_returns_inv [OF inv t m] show ?thesis
      by simp
  next
    case Unlocking
    with own have m: "mu st = Some t"
      by simp
    have s: "step drv t st =
        st\<lparr> mu := None, goroutines := (goroutines st)[t := (goroutines st ! t)\<lparr> g_phase := Idle \<rparr>] \<rparr>"
      using Unlocking t by (simp add: step_def)
    show ?thesis
      unfolding s
      by (rule lock_inv_update [OF inv t, where g = "(goroutines st ! t)\<lparr> g_phase := Idle \<rparr>"])
        (simp_all add: m)
  qed
qed

lemma run_inv: "lock_inv st \<Longrightarrow> lock_inv (run drv sched st)"
  by (induction sched arbitrary: st) (simp_all add: step_inv)

lemma method_returns_closed:
  "sqlite_db (handle st) = None \<Longrightarrow> lib_calls (method_returns drv t op st) = lib_calls st"
  by (simp add: method_returns_def SQLiteDB_call_closed)

lemma step_lib_calls:
  "lib_calls (step drv t st) \<noteq> lib_calls st \<Longrightarrow>
   t < length (goroutines st) \<and> (\<exists>op. g_phase (goroutines st ! t) = Calling op)"
  by (auto simp add: step_def method_returns_closed split: if_splits phase.splits list.splits option.splits)

lemma step_phases:
  assumes "t < length (goroutines st)"
  shows "(\<forall>op. g_phase (goroutines st ! t) = Holding op \<longrightarrow>
            mu (step drv t st) = mu st \<and>
            (g_phase (goroutines (step drv t st) ! t) = Unlocking \<or>
             g_phase (goroutines (step drv t st) ! t) = Calling op)) \<and>
         (\<forall>op. g_phase (goroutines st ! t) = Calling op \<longrightarrow>
            mu (step drv t st) = mu st \<and>
            g_phase (goroutines (step drv t st) ! t) = Unlocking) \<and>
         (g_phase (goroutines st ! t) = Unlocking \<longrightarrow>
            mu (step drv t st) = None \<and> g_phase (goroutines (step drv t st) ! t) = Idle)"
  using assms
  by (auto simp add: step_def method_returns_eq)

text \<open>
  Claim C9. Let any number of goroutines run any programs of operations on one SQLite
  handle, started with the mutex free, under any driver and any schedule. In every state
  they reach, at most one goroutine is inside a method, that is, between its \<open>Lock\<close> and
  its deferred \<open>Unlock\<close>; a goroutine is inside a method exactly when it holds the mutex,
  and the mutex is held by no one else; so two goroutines are never inside a library call
  at the same time. The trace of library calls
  changes only by an action of a goroutine whose library call is in progress, and that
  goroutine holds the mutex. The mutex stays held from the nil check through the library
  call, and on both ways out of a method, the early return at the nil check and the return
  of the library call, the next action of the goroutine is the deferred \<open>Unlock\<close>, which
  frees the mutex.
\<close>

theorem C9_serialized_access:
  assumes "st = run drv sched (start s w progs)"
  shows "(\<forall>t u. t < length (goroutines st) \<longrightarrow> u < length (goroutines st) \<longrightarrow>
            g_phase (goroutines st ! t) \<noteq> Idle \<longrightarrow> g_phase (goroutines st ! u) \<noteq> Idle \<longrightarrow>
            t = u) \<and>
         (\<forall>t. t < length (goroutines st) \<longrightarrow>
            (g_phase (goroutines st ! t) \<noteq> Idle) = (mu st = Some t)) \<and>
         (\<forall>t. mu st = Some t \<longrightarrow>
            t < length (goroutines st) \<and> g_phase (goroutines st ! t) \<noteq> Idle) \<and>
         (\<forall>t. lib_calls (step drv t st) \<noteq> lib_calls st \<longrightarrow>
            t < length (goroutines st) \<and> mu st = Some t \<and>
            (\<exists>op. g_phase (goroutines st ! t) = Calling op)) \<and>
         (\<forall>t op. t < length (goroutines st) \<longrightarrow> g_phase (goroutines st ! t) = Holding op \<longrightarrow>
            mu (step drv t st) = Some t \<and>
            (g_phase (goroutines (step drv t st) ! t) = Unlocking \<or>
             g_phase (goroutines (step drv t st) ! t) = Calling op)) \<and>
         (\<forall>t op. t < length (goroutines st) \<longrightarrow> g_phase (goroutines st ! t) = Calling op \<longrightarrow>
            mu (step drv t st) = Some t \<and>
            g_phase (goroutines (step drv t st) ! t) = Unlocking) \<and>
         (\<forall>t. t < length (goroutines st) \<longrightarrow> g_phase (goroutines st ! t) = Unlocking \<longrightarrow>
            mu (step drv t st) = None \<and> g_phase (goroutines (step drv t st) ! t) = Idle)"
proof -
  have inv: "lock_inv st"
    unfolding assms by (rule run_inv) (rule start_inv)
  then have own: "\<And>t. t < length (goroutines st) \<Longrightarrow>
      (g_phase (goroutines st ! t) \<noteq> Idle) = (mu st = Some t)"
    by (simp add: lock_inv_def)
  from inv have held: "\<forall>t. mu st = Some t \<longrightarrow>
      t < length (goroutines st) \<and> g_phase (goroutines st ! t) \<noteq> Idle"
    by (simp add: lock_inv_def)
  have one: "\<forall>t u. t < length (goroutines st) \<longrightarrow> u < length (goroutines st) \<longrightarrow>
      g_phase (goroutines st ! t) \<noteq> Idle \<longrightarrow> g_phase (goroutines st ! u) \<noteq> Idle \<longrightarrow> t = u"
  proof (intro allI impI)
    fix t u
    assume "t < length (goroutines st)" and "u < length (goroutines st)"
      and "g_phase (goroutines st ! t) \<noteq> Idle" and "g_phase (goroutines st ! u) \<noteq> Idle"
    with own [of t] own [of u] have "mu st = Some t" and "mu st = Some u"
      by simp_all
    then show "t = u"
      by simp
  qed
  have calls: "\<forall>t. lib_calls (step drv t st) \<noteq> lib_calls st \<longrightarrow>
      t < length (goroutines st) \<and> mu st = Some t \<and>
      (\<exists>op. g_phase (goroutines st ! t) = Calling op)"
  proof (intro allI impI)
    fix t
    assume "lib_calls (step drv t st) \<noteq> lib_calls st"
    then have t: "t < length (goroutines st)"
      and c: "\<exists>op. g_phase (goroutines st ! t) = Calling op"
      using step_lib_calls by blast+
    from c own [OF t] have "mu st = Some t"
      by auto
    with t c show "t < length (goroutines st) \<and> mu st = Some t \<and>
        (\<exists>op. g_phase (goroutines st ! t) = Calling op)"
      by simp
  qed
  have holding: "\<forall>t op. t < length (goroutines st) \<longrightarrow> g_phase (goroutines st ! t) = Holding op \<longrightarrow>
      mu (step drv t st) = Some t \<and>
      (g_phase (goroutines (step drv t st) ! t) = Unlocking \<or>
       g_phase (goroutines (step drv t st) ! t) = Calling op)"
  proof (intro allI impI)
    fix t op
    assume t: "t < length (goroutines st)" and h: "g_phase (goroutines st ! t) = Holding op"
    from h own [OF t] have "mu st = Some t"
      by simp
    with step_phases [OF t, of drv] h
    show "mu (step drv t st) = Some t \<and>
      (g_phase (goroutines (step drv t st) ! t) = Unlocking \<or>
       g_phase (goroutines (step drv t st) ! t) = Calling op)"
      by simp
  qed
  have calling: "\<forall>t op. t < length (goroutines st) \<longrightarrow> g_phase (goroutines st ! t) = Calling op \<longrightarrow>
      mu (step drv t st) = Some t \<and> g_phase (goroutines (step drv t st) ! t) = Unlocking"
  proof (intro allI impI)
    fix t op
    assume t: "t < length (goroutines st)" and h: "g_phase (goroutines st ! t) = Calling op"
    from h own [OF t] have "mu st = Some t"
      by simp
    with step_phases [OF t, of drv] h
    show "mu (step drv t st) = Some t \<and> g_phase (goroutines (step drv t st) ! t) = Unlocking"
      by simp
  qed
  have unlocking: "\<forall>t. t < length (goroutines st) \<longrightarrow> g_phase (goroutines st ! t) = Unlocking \<longrightarrow>
      mu (step drv t st) = None \<and> g_phase (goroutines (step drv t st) ! t) = Idle"
    using step_phases by blast
  from one own held calls holding calling unlocking show ?thesis
    by blast
qed

lemma example_run:
  "run good_driver [0, 1, 0, 1]
     (start example_SQLiteDB [] [[S_Exec ''DELETE FROM sessions'' []], [S_Close]]) =
   \<lparr> mu = Some 0, handle = example_SQLiteDB, lib_calls = [],
     goroutines =
       [\<lparr> g_phase = Calling (S_Exec ''DELETE FROM sessions'' []), g_program = [], g_replies = [] \<rparr>,
        \<lparr> g_phase = Idle, g_program = [S_Close], g_replies = [] \<rparr>] \<rparr>"
  by (simp add: start_def step_def example_SQLiteDB_def)

theorem C9_serialized_access_witness:
  "g_phase (goroutines (run good_driver [0, 1, 0, 1]
       (start example_SQLiteDB [] [[S_Exec ''DELETE FROM sessions'' []], [S_Close]])) ! 0) =
     Calling (S_Exec ''DELETE FROM sessions'' []) \<and>
   mu (run good_driver [0, 1, 0, 1]
       (start example_SQLiteDB [] [[S_Exec ''DELETE FROM sessions'' []], [S_Close]])) = Some 0 \<and>
   g_phase (goroutines (run good_driver [0, 1, 0, 1]
       (start example_SQLiteDB [] [[S_Exec ''DELETE FROM sessions'' []], [S_Close]])) ! 1) = Idle \<and>
   g_program (goroutines (run good_driver [0, 1, 0, 1]
       (start example_SQLiteDB [] [[S_Exec ''DELETE FROM sessions'' []], [S_Close]])) ! 1) = [S_Close]"
proof -
  define st where "st = run good_driver [0, 1, 0, 1]
       (start example_SQLiteDB [] [[S_Exec ''DELETE FROM sessions'' []], [S_Close]])"
  have e: "st =
      \<lparr> mu = Some 0, handle = example_SQLiteDB, lib_calls = [],
        goroutines =
          [\<lparr> g_phase = Calling (S_Exec ''DELETE FROM sessions'' []), g_program = [], g_replies = [] \<rparr>,
           \<lparr> g_phase = Idle, g_program = [S_Close], g_replies = [] \<rparr>] \<rparr>"
    unfolding st_def by (rule example_run)
  have l0: "0 < length (goroutines st)" and l1: "1 < length (goroutines st)"
    unfolding e by simp_all
  have p: "g_phase (goroutines st ! 0) = Calling (S_Exec ''DELETE FROM sessions'' [])"
    unfolding e by simp
  have q: "g_program (goroutines st ! 1) = [S_Close]"
    unfolding e by simp
  note t = C9_serialized_access [OF st_def]
  from t have own: "\<forall>t. t < length (goroutines st) \<longrightarrow>
      (g_phase (goroutines st ! t) \<noteq> Idle) = (mu st = Some t)"
    by blast
  from own l0 have "(g_phase (goroutines st ! 0) \<noteq> Idle) = (mu st = Some 0)"
    by blast
  with p have m: "mu st = Some 0"
    by simp
  from own l1 have "(g_phase (goroutines st ! 1) \<noteq> Idle) = (mu st = Some 1)"
    by blast
  with m have i: "g_phase (goroutines st ! 1) = Idle"
    by simp
  from p m i q show ?thesis
    unfolding st_def by blast
qed

end
